theory Spec2Isabelle
  imports Main "HOL-Library.Sublist"
begin

section \<open>Podcast-Maker: the loudness-normalisation and assembly pipeline of app.py\<close>

text \<open>
  The pipeline of \<^verbatim>\<open>app.py\<close> drives an external audio tool (ffmpeg): it measures the
  loudness of one clip, normalises six clips to that loudness into a temporary directory and
  concatenates eight references to them into one output file. The functions of the source
  are embedded one by one under their own names. What the source does to the outside world
  is explicit:
  \<^item> a Python exception is a value \<open>Exc cls msg\<close> returned on the left of a sum;
  \<^item> the file system is the predicate of the paths that exist;
  \<^item> the external process, the search for the binary and the creation of the temporary
    directory are fields of an environment record, so every theorem holds for any
    behaviour of the tool;
  \<^item> the builtins of Python the code relies on (\<^verbatim>\<open>json.loads\<close>, \<^verbatim>\<open>str\<close>,
    \<^verbatim>\<open>float\<close>, float formatting) are fields of a library record over an abstract
    type \<open>'f\<close> of floats;
  \<^item> each call of the three tool operations, each progress notification and the creation
    of the workspace are appended to a trace, which is what a test double would capture.
\<close>

subsection \<open>Exceptions\<close>

datatype pyexc = Exc (exc_class: string) (exc_msg: string)

definition RuntimeError :: "string \<Rightarrow> pyexc" where
  "RuntimeError msg = Exc ''RuntimeError'' msg"

definition nl :: string where
  "nl = [CHR 0x0A]"

subsection \<open>Strings and paths\<close>

text \<open>\<^verbatim>\<open>str.lower\<close> on the ASCII letters; no character outside ASCII lowers to a letter
  of \<^verbatim>\<open>nan\<close>, the only text the result is compared with.\<close>

definition lower_char :: "char \<Rightarrow> char" where
  "lower_char c =
     (case map_of (zip ''ABCDEFGHIJKLMNOPQRSTUVWXYZ'' ''abcdefghijklmnopqrstuvwxyz'') c of
        Some l \<Rightarrow> l
      | None \<Rightarrow> c)"

definition lower :: "string \<Rightarrow> string" where
  "lower s = map lower_char s"

text \<open>\<^verbatim>\<open>str\<close> of an integer: decimal digits with a leading minus sign.\<close>

definition digit_char :: "nat \<Rightarrow> char" where
  "digit_char d = ''0123456789'' ! d"

fun str_nat :: "nat \<Rightarrow> string" where
  "str_nat n = (if n < 10 then [digit_char n] else str_nat (n div 10) @ [digit_char (n mod 10)])"

declare str_nat.simps [simp del]

definition str_int :: "int \<Rightarrow> string" where
  "str_int i = (if i < 0 then CHR ''-'' # str_nat (nat (- i)) else str_nat (nat i))"

text \<open>\<^verbatim>\<open>os.path.join\<close> of two components, as \<^verbatim>\<open>posixpath\<close> defines it: an absolute
  second component replaces the first, otherwise one separator joins them.\<close>

definition path_join :: "string \<Rightarrow> string \<Rightarrow> string" where
  "path_join a b =
     (case b of
        c # _ \<Rightarrow> if c = CHR ''/'' then b
                 else if a = [] \<or> last a = CHR ''/'' then a @ b else a @ ''/'' @ b
      | [] \<Rightarrow> if a = [] \<or> last a = CHR ''/'' then a else a @ ''/'')"

text \<open>The file system is the set of existing paths. A path lies within a directory when
  it is the directory or continues the directory's name and a separator; removing a tree
  removes every such path.\<close>

type_synonym fsys = "string \<Rightarrow> bool"

definition within :: "string \<Rightarrow> string \<Rightarrow> bool" where
  "within d p = (p = d \<or> prefix (path_join d []) p)"

definition rmtree :: "string \<Rightarrow> fsys \<Rightarrow> fsys" where
  "rmtree d f = (\<lambda>p. f p \<and> \<not> within d p)"

subsection \<open>The regular expression of the analyzer\<close>

text \<open>\<^verbatim>\<open>re.findall(r"\{[\s\S]*?\}", err)\<close>: a match starts at an opening brace and, the
  star being lazy, ends at the first closing brace after it; the search resumes behind the
  match, and an opening brace with no closing brace after it matches nothing.
  \<open>scan_braces\<close> carries the match under construction, if any.\<close>

fun scan_braces :: "string option \<Rightarrow> string \<Rightarrow> string list" where
  "scan_braces _ [] = []"
| "scan_braces None (c # cs) =
     (if c = CHR ''{'' then scan_braces (Some [c]) cs else scan_braces None cs)"
| "scan_braces (Some acc) (c # cs) =
     (if c = CHR ''}'' then (acc @ [c]) # scan_braces None cs
      else scan_braces (Some (acc @ [c])) cs)"

definition re_findall_braces :: "string \<Rightarrow> string list" where
  "re_findall_braces err = scan_braces None err"

subsection \<open>Values of JSON and the builtins of Python\<close>

datatype 'f jvalue =
    JNull
  | JBool bool
  | JInt int
  | JFloat 'f
  | JStr string
  | JArr "'f jvalue list"
  | JObj "string \<Rightarrow> 'f jvalue option"

text \<open>The builtins: \<^verbatim>\<open>json.loads\<close> (a decoded value, or the exception of the decoder),
  \<^verbatim>\<open>str\<close> and \<^verbatim>\<open>float\<close> on a decoded value (a float, or the exception of the
  conversion), \<^verbatim>\<open>format(x, ".nf")\<close> with its number of decimals, and the float denoted
  by a literal of the source.\<close>

record 'f pylib =
  json_loads :: "string \<Rightarrow> pyexc + 'f jvalue"
  py_str :: "'f jvalue \<Rightarrow> string"
  py_float :: "'f jvalue \<Rightarrow> pyexc + 'f"
  format_f :: "nat \<Rightarrow> 'f \<Rightarrow> string"
  float_lit :: "string \<Rightarrow> 'f"

text \<open>\<^verbatim>\<open>j.get(key, None)\<close>: the value under the key, \<^verbatim>\<open>None\<close> when the key is
  absent; a value that is no dict has no such method.\<close>

definition dict_get :: "'f jvalue \<Rightarrow> string \<Rightarrow> pyexc + 'f jvalue" where
  "dict_get j k =
     (case j of
        JObj d \<Rightarrow> Inr (case d k of None \<Rightarrow> JNull | Some v \<Rightarrow> v)
      | _ \<Rightarrow> Inl (Exc ''AttributeError'' ''get''))"

definition is_none :: "'f jvalue \<Rightarrow> bool" where
  "is_none v = (case v of JNull \<Rightarrow> True | _ \<Rightarrow> False)"

subsection \<open>The environment and the world\<close>

text \<open>The environment of a run: \<^verbatim>\<open>os.name\<close>, the base directory of a bundled
  executable (\<^verbatim>\<open>sys._MEIPASS\<close>, absent when not bundled), the current directory,
  \<^verbatim>\<open>shutil.which\<close>, the external process behind \<^verbatim>\<open>subprocess.Popen\<close> and
  \<^verbatim>\<open>communicate\<close>, and the name chosen for a new temporary directory. A process is
  given its command and the file system; it returns the exit status with the texts of its
  two output streams, or the exception of a failed launch, and the file system it leaves.
  Paths are joined as on POSIX; on Windows the separator differs, which changes the spelling
  of the paths and nothing else in what follows.\<close>

type_synonym procres = "pyexc + int \<times> string \<times> string"

record env =
  os_name :: string
  meipass :: "string option"
  cwd :: string
  which :: "string \<Rightarrow> string option"
  popen :: "string list \<Rightarrow> fsys \<Rightarrow> procres \<times> fsys"
  mkdtemp :: "string \<Rightarrow> fsys \<Rightarrow> pyexc + string"

text \<open>The trace of a run. A progress notification is recorded by its stage (the texts of
  the source are German sentences outside ASCII), and only when a callback was passed. A call
  of one of the three tool operations is recorded with its arguments (the tool's path first)
  and with what the external process returned.\<close>

datatype stage = StageBaseline | StageNormalize string | StageConcat

datatype 'f event =
    Status stage
  | TempDir string
  | Measure string string procres
  | Normalize string string string 'f procres
  | Concat string "string list" string procres

record 'f world =
  fs :: fsys
  trace :: "'f event list"

definition record_event :: "'f event \<Rightarrow> 'f world \<Rightarrow> 'f world" where
  "record_event e w = w\<lparr>trace := trace w @ [e]\<rparr>"

definition notify :: "bool \<Rightarrow> stage \<Rightarrow> 'f world \<Rightarrow> 'f world" where
  "notify status_callback s w = (if status_callback then record_event (Status s) w else w)"

subsection \<open>ffmpeg helpers\<close>

definition resource_path :: "env \<Rightarrow> string \<Rightarrow> string" where
  "resource_path E relative =
     path_join (case meipass E of Some b \<Rightarrow> b | None \<Rightarrow> cwd E) relative"

definition which_or_bundled :: "env \<Rightarrow> string \<Rightarrow> fsys \<Rightarrow> string option" where
  "which_or_bundled E name f =
     (let candidate = resource_path E (path_join ''bin'' name)
      in if f candidate then Some candidate else which E name)"

definition run_cmd :: "env \<Rightarrow> string list \<Rightarrow> 'f world \<Rightarrow> procres \<times> 'f world" where
  "run_cmd E cmd w = (case popen E cmd (fs w) of (r, f') \<Rightarrow> (r, w\<lparr>fs := f'\<rparr>))"

text \<open>The texts of the \<^verbatim>\<open>RuntimeError\<close>s raised by the three tool operations.\<close>

definition analysis_failed_msg :: "string \<Rightarrow> string \<Rightarrow> string" where
  "analysis_failed_msg infile err =
     ''ffmpeg loudness analysis failed for '' @ infile @ '':'' @ nl @ err"

definition parse_failed_msg :: "string \<Rightarrow> string \<Rightarrow> string" where
  "parse_failed_msg infile err =
     ''Could not parse loudnorm JSON for '' @ infile @ ''.'' @ nl @ ''ffmpeg stderr:'' @ nl @ err"

definition invalid_loudness_msg :: "string \<Rightarrow> string" where
  "invalid_loudness_msg infile = ''Invalid loudness (input_i) for '' @ infile @ ''.''"

definition normalize_failed_msg :: "string \<Rightarrow> string \<Rightarrow> string" where
  "normalize_failed_msg infile err = ''ffmpeg normalize failed for '' @ infile @ '':'' @ nl @ err"

definition concat_failed_msg :: "string \<Rightarrow> string" where
  "concat_failed_msg err = ''ffmpeg concatenation failed:'' @ nl @ err"

definition measure_cmd :: "string \<Rightarrow> string \<Rightarrow> string list" where
  "measure_cmd ffmpeg_path infile =
     [ffmpeg_path, ''-hide_banner'', ''-nostdin'',
      ''-i'', infile,
      ''-af'', ''loudnorm=I=-16:TP=-1.5:LRA=11:print_format=json'',
      ''-f'', ''null'', ''-'']"

definition measure_integrated_loudness ::
  "'f pylib \<Rightarrow> env \<Rightarrow> string \<Rightarrow> string \<Rightarrow> 'f world \<Rightarrow> (pyexc + 'f) \<times> 'f world" where
  "measure_integrated_loudness L E ffmpeg_path infile w =
     (case run_cmd E (measure_cmd ffmpeg_path infile) w of (res, w1) \<Rightarrow>
       (let w2 = record_event (Measure ffmpeg_path infile res) w1 in
         (case res of
            Inl e \<Rightarrow> (Inl e, w2)
          | Inr (rc, out, err) \<Rightarrow>
             (if rc \<noteq> 0 then
                (Inl (RuntimeError (analysis_failed_msg infile err)), w2)
              else
                (let m = re_findall_braces err in
                  (if m = [] then
                     (Inl (RuntimeError (parse_failed_msg infile err)), w2)
                   else
                     (case json_loads L (last m) of
                        Inl e \<Rightarrow> (Inl e, w2)
                      | Inr j \<Rightarrow>
                         (case dict_get j ''input_i'' of
                            Inl e \<Rightarrow> (Inl e, w2)
                          | Inr input_i \<Rightarrow>
                             (if is_none input_i \<or> lower (py_str L input_i) = ''nan'' then
                                (Inl (RuntimeError (invalid_loudness_msg infile)), w2)
                              else (py_float L input_i, w2))))))))))"

definition normalize_cmd ::
  "'f pylib \<Rightarrow> string \<Rightarrow> string \<Rightarrow> string \<Rightarrow> 'f \<Rightarrow> 'f \<Rightarrow> 'f \<Rightarrow> int \<Rightarrow> int \<Rightarrow> string list" where
  "normalize_cmd L ffmpeg_path infile outfile_wav target_i true_peak lra sample_rate channels =
     (let af = ''loudnorm=I='' @ format_f L 2 target_i @ '':TP='' @ format_f L 1 true_peak
                 @ '':LRA='' @ format_f L 0 lra
      in [ffmpeg_path, ''-hide_banner'', ''-nostdin'', ''-y'',
          ''-i'', infile,
          ''-vn'',
          ''-af'', af,
          ''-ar'', str_int sample_rate,
          ''-ac'', str_int channels,
          outfile_wav])"

definition normalize_to_target_i ::
  "'f pylib \<Rightarrow> env \<Rightarrow> string \<Rightarrow> string \<Rightarrow> string \<Rightarrow> 'f \<Rightarrow> 'f \<Rightarrow> 'f \<Rightarrow> int \<Rightarrow> int \<Rightarrow> 'f world
     \<Rightarrow> (pyexc + unit) \<times> 'f world" where
  "normalize_to_target_i L E ffmpeg_path infile outfile_wav target_i true_peak lra sample_rate
       channels w =
     (case run_cmd E (normalize_cmd L ffmpeg_path infile outfile_wav target_i true_peak lra
                        sample_rate channels) w of (res, w1) \<Rightarrow>
       (let w2 = record_event (Normalize ffmpeg_path infile outfile_wav target_i res) w1 in
         (case res of
            Inl e \<Rightarrow> (Inl e, w2)
          | Inr (rc, out, err) \<Rightarrow>
             (if rc \<noteq> 0 then
                (Inl (RuntimeError (normalize_failed_msg infile err)), w2)
              else (Inr (), w2)))))"

definition concat_cmd :: "string \<Rightarrow> string list \<Rightarrow> string \<Rightarrow> int \<Rightarrow> string list" where
  "concat_cmd ffmpeg_path input_files output_path mp3_quality =
     (let n = length input_files;
          filter_inputs = concat (map (\<lambda>i. ''['' @ str_nat i @ '':a]'') [0..<n]);
          filter_complex = filter_inputs @ ''concat=n='' @ str_nat n @ '':v=0:a=1[out]''
      in [ffmpeg_path, ''-hide_banner'', ''-nostdin'', ''-y'']
         @ concat (map (\<lambda>f. [''-i'', f]) input_files)
         @ [''-filter_complex'', filter_complex,
            ''-map'', ''[out]'',
            ''-c:a'', ''libmp3lame'',
            ''-q:a'', str_int mp3_quality,
            output_path])"

definition concatenate_audio ::
  "env \<Rightarrow> string \<Rightarrow> string list \<Rightarrow> string \<Rightarrow> int \<Rightarrow> 'f world \<Rightarrow> (pyexc + unit) \<times> 'f world" where
  "concatenate_audio E ffmpeg_path input_files output_path mp3_quality w =
     (case run_cmd E (concat_cmd ffmpeg_path input_files output_path mp3_quality) w of
        (res, w1) \<Rightarrow>
       (let w2 = record_event (Concat ffmpeg_path input_files output_path res) w1 in
         (case res of
            Inl e \<Rightarrow> (Inl e, w2)
          | Inr (rc, out, err) \<Rightarrow>
             (if rc \<noteq> 0 then
                (Inl (RuntimeError (concat_failed_msg err)), w2)
              else (Inr (), w2)))))"

subsection \<open>The orchestrator\<close>

definition CONCAT_ORDER :: "string list" where
  "CONCAT_ORDER =
     [''jingle_vorne'',
      ''intro'',
      ''jingle_hinten'',
      ''vorab'',
      ''kapitel'',
      ''jingle_vorne'',
      ''outro'',
      ''jingle_hinten'']"

text \<open>The dict \<^verbatim>\<open>files\<close> of the source, in its insertion order, which is the order
  in which \<^verbatim>\<open>items()\<close> yields it. The dict \<^verbatim>\<open>unique_files\<close> is built from the
  same six keys in the same order, each bound to \<^verbatim>\<open>files[key]\<close>: it is the same
  list.\<close>

definition episode_files :: "string \<Rightarrow> (string \<times> string) list" where
  "episode_files episode_folder =
     [(''intro'', path_join episode_folder ''intro.mp3''),
      (''vorab'', path_join episode_folder ''vorab.mp3''),
      (''kapitel'', path_join episode_folder ''kapitel.mp3''),
      (''outro'', path_join episode_folder ''outro.mp3''),
      (''jingle_vorne'', path_join episode_folder ''jingle_vorne.mp3''),
      (''jingle_hinten'', path_join episode_folder ''jingle_hinten.mp3'')]"

text \<open>\<^verbatim>\<open>sep.join(xs)\<close>.\<close>

fun str_join :: "string \<Rightarrow> string list \<Rightarrow> string" where
  "str_join sep [] = []"
| "str_join sep [x] = x"
| "str_join sep (x # y # ys) = x @ sep @ str_join sep (y # ys)"

text \<open>\<^verbatim>\<open>d[key]\<close> raises \<^verbatim>\<open>KeyError\<close> on an absent key; the list comprehension over
  \<^verbatim>\<open>CONCAT_ORDER\<close> stops at the first such key.\<close>

definition subscript :: "(string \<Rightarrow> 'a option) \<Rightarrow> string \<Rightarrow> pyexc + 'a" where
  "subscript d k = (case d k of None \<Rightarrow> Inl (Exc ''KeyError'' k) | Some v \<Rightarrow> Inr v)"

fun subscript_all :: "(string \<Rightarrow> 'a option) \<Rightarrow> string list \<Rightarrow> pyexc + 'a list" where
  "subscript_all d [] = Inr []"
| "subscript_all d (k # ks) =
     (case subscript d k of
        Inl e \<Rightarrow> Inl e
      | Inr v \<Rightarrow> (case subscript_all d ks of Inl e \<Rightarrow> Inl e | Inr vs \<Rightarrow> Inr (v # vs)))"

definition missing_files :: "fsys \<Rightarrow> (string \<times> string) list \<Rightarrow> string list" where
  "missing_files f files =
     map (\<lambda>(name, path). name @ ''.mp3'')
       (filter (\<lambda>(name, path). path = [] \<or> \<not> f path) files)"

definition tool_not_found_msg :: string where
  "tool_not_found_msg =
     ''ffmpeg nicht gefunden.'' @ nl @ ''Installiere ffmpeg oder bundle es mit der .exe.''"

definition missing_files_msg :: "string list \<Rightarrow> string" where
  "missing_files_msg missing =
     ''Fehlende Dateien:'' @ nl @ str_join nl (map (\<lambda>m. ''  - '' @ m) missing)"

definition outwav_of :: "string \<Rightarrow> string \<Rightarrow> string" where
  "outwav_of td name = path_join td (name @ ''_norm.wav'')"

definition output_path_of :: "string \<Rightarrow> int \<Rightarrow> string" where
  "output_path_of output_folder chapter_number =
     path_join output_folder (''Kapitel '' @ str_int chapter_number @ ''.mp3'')"

text \<open>The loop over \<^verbatim>\<open>unique_files.items()\<close>, with the dict \<^verbatim>\<open>normalized\<close> it
  fills; the first failing normalisation ends it.\<close>

fun normalize_all ::
  "'f pylib \<Rightarrow> env \<Rightarrow> bool \<Rightarrow> string \<Rightarrow> string \<Rightarrow> 'f \<Rightarrow> (string \<times> string) list
     \<Rightarrow> (string \<Rightarrow> string option) \<Rightarrow> 'f world
     \<Rightarrow> (pyexc + (string \<Rightarrow> string option)) \<times> 'f world" where
  "normalize_all L E status_callback ffmpeg td baseline_i [] normalized w = (Inr normalized, w)"
| "normalize_all L E status_callback ffmpeg td baseline_i ((name, path) # rest) normalized w =
     (let w1 = notify status_callback (StageNormalize name) w;
          outwav = outwav_of td name
      in (case normalize_to_target_i L E ffmpeg path outwav baseline_i
                 (float_lit L ''-1.5'') (float_lit L ''11.0'') 48000 2 w1 of
            (Inl e, w2) \<Rightarrow> (Inl e, w2)
          | (Inr u, w2) \<Rightarrow>
              normalize_all L E status_callback ffmpeg td baseline_i rest
                (normalized(name \<mapsto> outwav)) w2))"

text \<open>The body of the \<^verbatim>\<open>with tempfile.TemporaryDirectory(...) as td\<close> block.\<close>

definition workspace_body ::
  "'f pylib \<Rightarrow> env \<Rightarrow> bool \<Rightarrow> string \<Rightarrow> (string \<times> string) list \<Rightarrow> 'f \<Rightarrow> string \<Rightarrow> int \<Rightarrow> string
     \<Rightarrow> 'f world \<Rightarrow> (pyexc + string) \<times> 'f world" where
  "workspace_body L E status_callback ffmpeg unique_files baseline_i td chapter_number
       output_folder w =
     (case normalize_all L E status_callback ffmpeg td baseline_i unique_files Map.empty w of
        (Inl e, w1) \<Rightarrow> (Inl e, w1)
      | (Inr normalized, w1) \<Rightarrow>
         (case subscript_all normalized CONCAT_ORDER of
            Inl e \<Rightarrow> (Inl e, w1)
          | Inr concat_files \<Rightarrow>
             (let output_path = output_path_of output_folder chapter_number;
                  w2 = notify status_callback StageConcat w1
              in (case concatenate_audio E ffmpeg concat_files output_path 2 w2 of
                    (Inl e, w3) \<Rightarrow> (Inl e, w3)
                  | (Inr u, w3) \<Rightarrow> (Inr output_path, w3)))))"

definition ffmpeg_name :: "env \<Rightarrow> string" where
  "ffmpeg_name E = (if os_name E = ''nt'' then ''ffmpeg.exe'' else ''ffmpeg'')"

text \<open>\<^verbatim>\<open>process_episode\<close>. The context manager creates the directory on entry and
  removes its tree on exit, whether the body returned or raised; an exception of the body
  goes on to the caller after the removal. The removal itself is taken to succeed. When the
  directory cannot be created, the exception of \<^verbatim>\<open>mkdtemp\<close> ends the run.\<close>

definition process_episode ::
  "'f pylib \<Rightarrow> env \<Rightarrow> string \<Rightarrow> int \<Rightarrow> string \<Rightarrow> bool \<Rightarrow> 'f world \<Rightarrow> (pyexc + string) \<times> 'f world" where
  "process_episode L E episode_folder chapter_number output_folder status_callback w =
     (let ffmpeg = which_or_bundled E (ffmpeg_name E) (fs w)
      in (case ffmpeg of
            None \<Rightarrow> (Inl (RuntimeError tool_not_found_msg), w)
          | Some ffmpeg \<Rightarrow>
             (if ffmpeg = [] then (Inl (RuntimeError tool_not_found_msg), w)
              else
                (let files = episode_files episode_folder;
                     missing = missing_files (fs w) files
                 in (if missing \<noteq> [] then (Inl (RuntimeError (missing_files_msg missing)), w)
                     else
                       (let w1 = notify status_callback StageBaseline w in
                         (case subscript (map_of files) ''jingle_vorne'' of
                            Inl e \<Rightarrow> (Inl e, w1)
                          | Inr jingle \<Rightarrow>
                             (case measure_integrated_loudness L E ffmpeg jingle w1 of
                                (Inl e, w2) \<Rightarrow> (Inl e, w2)
                              | (Inr baseline_i, w2) \<Rightarrow>
                                 (case mkdtemp E ''podcast_'' (fs w2) of
                                    Inl e \<Rightarrow> (Inl e, w2)
                                  | Inr td \<Rightarrow>
                                     (let w3 = record_event (TempDir td)
                                                 (w2\<lparr>fs := (fs w2)(td := True)\<rparr>)
                                      in (case workspace_body L E status_callback ffmpeg files
                                                 baseline_i td chapter_number output_folder w3 of
                                            (r, w4) \<Rightarrow>
                                              (r, w4\<lparr>fs := rmtree td (fs w4)\<rparr>))))))))))))"

subsection \<open>What a run shows to an observer\<close>

text \<open>The calls of the three operations that a trace holds, with their arguments, in the
  order in which they were made, and the exception class of a failed run.\<close>

fun measure_call :: "'f event \<Rightarrow> (string \<times> string) option" where
  "measure_call (Measure ff infile res) = Some (ff, infile)"
| "measure_call _ = None"

fun normalize_call :: "'f event \<Rightarrow> (string \<times> string \<times> 'f) option" where
  "normalize_call (Normalize ff infile outfile target_i res) = Some (infile, outfile, target_i)"
| "normalize_call _ = None"

fun concat_call :: "'f event \<Rightarrow> (string list \<times> string) option" where
  "concat_call (Concat ff input_files output_path res) = Some (input_files, output_path)"
| "concat_call _ = None"

fun tempdir_of :: "'f event \<Rightarrow> string option" where
  "tempdir_of (TempDir td) = Some td"
| "tempdir_of _ = None"

definition measure_calls :: "'f event list \<Rightarrow> (string \<times> string) list" where
  "measure_calls tr = List.map_filter measure_call tr"

definition normalize_calls :: "'f event list \<Rightarrow> (string \<times> string \<times> 'f) list" where
  "normalize_calls tr = List.map_filter normalize_call tr"

definition concat_calls :: "'f event list \<Rightarrow> (string list \<times> string) list" where
  "concat_calls tr = List.map_filter concat_call tr"

definition tempdirs :: "'f event list \<Rightarrow> string list" where
  "tempdirs tr = List.map_filter tempdir_of tr"




text \<open>Two assumptions on the external tool that some statements need: a concatenation that
  exits with status 0 has written its output file, and no process removes a given path.\<close>

definition concat_writes_output :: "env \<Rightarrow> bool" where
  "concat_writes_output E =
     (\<forall>ff input_files output_path q f out err f'.
        popen E (concat_cmd ff input_files output_path q) f = (Inr (0, out, err), f')
          \<longrightarrow> f' output_path)"


subsection \<open>A concrete library and environment\<close>

text \<open>The closed examples below run the pipeline in a small concrete setting. A finite
  float is the dyadic rational \<open>m / 2 ^ e\<close>, written \<open>(m, e)\<close>; fixed-point formatting
  rounds the exact value to the nearest decimal of the requested precision, ties to even,
  as Python's \<^verbatim>\<open>format\<close> does. The JSON decoder and \<^verbatim>\<open>float\<close> know the
  texts that occur in the example streams (ffmpeg prints every number as a JSON string) and
  reject any other text.\<close>

type_synonym dyadic = "int \<times> nat"

definition pad_zeros :: "nat \<Rightarrow> string \<Rightarrow> string" where
  "pad_zeros n s = replicate (n - length s) (CHR ''0'') @ s"

definition format_dyadic :: "nat \<Rightarrow> dyadic \<Rightarrow> string" where
  "format_dyadic n x =
     (case x of (m, e) \<Rightarrow>
       (let a = \<bar>m\<bar> * 10 ^ n;
            d = 2 ^ e;
            q = a div d;
            r = a mod d;
            k = (if d < 2 * r \<or> (2 * r = d \<and> odd q) then q + 1 else q)
        in (if m < 0 then ''-'' else [])
           @ str_nat (nat (k div 10 ^ n))
           @ (if n = 0 then [] else ''.'' @ pad_zeros n (str_nat (nat (k mod 10 ^ n))))))"

definition block_2350 :: string where
  \<open>block_2350 = ''{"input_i" : "-23.50"}''\<close>

definition block_3000 :: string where
  \<open>block_3000 = ''{"input_i" : "-30.00"}''\<close>

definition block_nan :: string where
  \<open>block_nan = ''{"input_i" : "NaN"}''\<close>

definition block_other :: string where
  \<open>block_other = ''{"input_tp" : "-5.00"}''\<close>

definition sample_loads :: "string \<Rightarrow> pyexc + dyadic jvalue" where
  "sample_loads s =
     (if s = block_2350 then Inr (JObj [''input_i'' \<mapsto> JStr ''-23.50''])
      else if s = block_3000 then Inr (JObj [''input_i'' \<mapsto> JStr ''-30.00''])
      else if s = block_nan then Inr (JObj [''input_i'' \<mapsto> JStr ''NaN''])
      else if s = block_other then Inr (JObj [''input_tp'' \<mapsto> JStr ''-5.00''])
      else Inl (Exc ''JSONDecodeError'' ''Expecting value''))"

definition sample_str :: "dyadic jvalue \<Rightarrow> string" where
  "sample_str v = (case v of JStr s \<Rightarrow> s | JNull \<Rightarrow> ''None'' | _ \<Rightarrow> [])"

definition sample_float :: "dyadic jvalue \<Rightarrow> pyexc + dyadic" where
  "sample_float v =
     (case v of
        JStr s \<Rightarrow>
          if s = ''-23.50'' then Inr (- 47, 1)
          else if s = ''-30.00'' then Inr (- 30, 0)
          else Inl (Exc ''ValueError'' ''could not convert string to float'')
      | JInt i \<Rightarrow> Inr (i, 0)
      | _ \<Rightarrow> Inl (Exc ''TypeError'' ''float() argument''))"

definition sample_lit :: "string \<Rightarrow> dyadic" where
  "sample_lit s = (if s = ''-1.5'' then (- 3, 1) else if s = ''11.0'' then (11, 0) else (0, 0))"

definition sample_lib :: "dyadic pylib" where
  "sample_lib =
     \<lparr>json_loads = sample_loads, py_str = sample_str, py_float = sample_float,
      format_f = format_dyadic, float_lit = sample_lit\<rparr>"

text \<open>The example tool: the analysis run prints the given diagnostic stream and exits
  with the given status; a normalisation writes its last argument; the concatenation
  writes its last argument, or exits with the given non-zero status, touching nothing, and
  prints a diagnostic.\<close>

definition sample_popen :: "int \<Rightarrow> string \<Rightarrow> int \<Rightarrow> string list \<Rightarrow> fsys \<Rightarrow> procres \<times> fsys" where
  "sample_popen analysis_rc diag concat_rc cmd f =
     (if cmd ! 3 = ''-i'' then (Inr (analysis_rc, [], diag), f)
      else if cmd ! 6 = ''-vn'' then (Inr (0, [], []), f(last cmd := True))
      else if concat_rc = 0 then (Inr (0, [], []), f(last cmd := True))
      else (Inr (concat_rc, [], ''Invalid data found''), f))"

definition sample_env :: "bool \<Rightarrow> int \<Rightarrow> string \<Rightarrow> int \<Rightarrow> env" where
  "sample_env tool analysis_rc diag concat_rc =
     \<lparr>os_name = ''posix'', meipass = None, cwd = ''/app'',
      which = (\<lambda>name. if tool then Some (''/usr/bin/'' @ name) else None),
      popen = sample_popen analysis_rc diag concat_rc,
      mkdtemp = (\<lambda>pre f. Inr (''/tmp/'' @ pre @ ''k3x9''))\<rparr>"

definition sample_world :: "string list \<Rightarrow> dyadic world" where
  "sample_world paths = \<lparr>fs = (\<lambda>p. p \<in> set paths), trace = []\<rparr>"

definition six_clips :: "string list" where
  "six_clips =
     [''/ep/intro.mp3'', ''/ep/vorab.mp3'', ''/ep/kapitel.mp3'', ''/ep/outro.mp3'',
      ''/ep/jingle_vorne.mp3'', ''/ep/jingle_hinten.mp3'']"

definition four_clips :: "string list" where
  "four_clips =
     [''/ep/intro.mp3'', ''/ep/vorab.mp3'', ''/ep/kapitel.mp3'', ''/ep/jingle_vorne.mp3'']"

definition two_blocks :: string where
  "two_blocks = ''[Parsed_loudnorm_0] '' @ block_3000 @ nl @ ''[Parsed_loudnorm_0] '' @ block_2350 @ nl"



section \<open>Properties of the steps\<close>

subsection \<open>Traces and single steps\<close>

lemma calls_append [simp]:
  "measure_calls (a @ b) = measure_calls a @ measure_calls b"
  "normalize_calls (a @ b) = normalize_calls a @ normalize_calls b"
  "concat_calls (a @ b) = concat_calls a @ concat_calls b"
  "tempdirs (a @ b) = tempdirs a @ tempdirs b"
  by (simp_all add: measure_calls_def normalize_calls_def concat_calls_def tempdirs_def
        map_filter_def)

lemma calls_Nil [simp]:
  "measure_calls [] = []" "normalize_calls [] = []" "concat_calls [] = []" "tempdirs [] = []"
  by (simp_all add: measure_calls_def normalize_calls_def concat_calls_def tempdirs_def
        map_filter_def)

lemma calls_Cons [simp]:
  "measure_calls (e # es) =
     (case measure_call e of None \<Rightarrow> measure_calls es | Some c \<Rightarrow> c # measure_calls es)"
  "normalize_calls (e # es) =
     (case normalize_call e of None \<Rightarrow> normalize_calls es | Some c \<Rightarrow> c # normalize_calls es)"
  "concat_calls (e # es) =
     (case concat_call e of None \<Rightarrow> concat_calls es | Some c \<Rightarrow> c # concat_calls es)"
  "tempdirs (e # es) =
     (case tempdir_of e of None \<Rightarrow> tempdirs es | Some c \<Rightarrow> c # tempdirs es)"
  by (simp_all add: measure_calls_def normalize_calls_def concat_calls_def tempdirs_def
        map_filter_def split: option.splits)


lemma notify_fs [simp]: "fs (notify cb s w) = fs w"
  by (simp add: notify_def record_event_def)

lemma record_event_fs [simp]: "fs (record_event e w) = fs w"
  by (simp add: record_event_def)

lemma record_event_trace [simp]: "trace (record_event e w) = trace w @ [e]"
  by (simp add: record_event_def)

lemma notify_trace:
  "trace (notify cb s w) = trace w @ (if cb then [Status s] else [])"
  by (simp add: notify_def)

lemma measure_step:
  assumes "measure_integrated_loudness L E ff infile w = (r, w')"
  shows "\<exists>res. popen E (measure_cmd ff infile) (fs w) = (res, fs w')
           \<and> trace w' = trace w @ [Measure ff infile res]"
  using assms
  by (auto simp: measure_integrated_loudness_def Let_def run_cmd_def
        split: prod.splits sum.splits if_splits)

lemma normalize_step:
  assumes "normalize_to_target_i L E ff infile outfile t tp lra sr ch w = (r, w')"
  shows "\<exists>res. popen E (normalize_cmd L ff infile outfile t tp lra sr ch) (fs w) = (res, fs w')
           \<and> trace w' = trace w @ [Normalize ff infile outfile t res]
           \<and> r = (case res of Inl e \<Rightarrow> Inl e
                    | Inr (rc, out, err) \<Rightarrow>
                        if rc \<noteq> 0 then Inl (RuntimeError (normalize_failed_msg infile err))
                        else Inr ())"
  using assms
  by (auto simp: normalize_to_target_i_def Let_def run_cmd_def
        split: prod.splits sum.splits if_splits)

lemma concatenate_step:
  assumes "concatenate_audio E ff input_files outp q w = (r, w')"
  shows "\<exists>res. popen E (concat_cmd ff input_files outp q) (fs w) = (res, fs w')
           \<and> trace w' = trace w @ [Concat ff input_files outp res]
           \<and> r = (case res of Inl e \<Rightarrow> Inl e
                    | Inr (rc, out, err) \<Rightarrow>
                        if rc \<noteq> 0 then Inl (RuntimeError (concat_failed_msg err))
                        else Inr ())"
  using assms
  by (auto simp: concatenate_audio_def Let_def run_cmd_def
        split: prod.splits sum.splits if_splits)


lemma normalize_all_trace:
  assumes "normalize_all L E cb ff td b items nm w = (r, w')"
  shows "\<exists>evs. trace w' = trace w @ evs \<and> measure_calls evs = [] \<and> concat_calls evs = []
           \<and> tempdirs evs = []
           \<and> prefix (normalize_calls evs) (map (\<lambda>(n, p). (p, outwav_of td n, b)) items)
           \<and> (\<forall>nm'. r = Inr nm' \<longrightarrow>
                 normalize_calls evs = map (\<lambda>(n, p). (p, outwav_of td n, b)) items
                 \<and> (\<forall>k. nm' k = (if k \<in> fst ` set items then Some (outwav_of td k) else nm k)))"
  using assms
proof (induction items arbitrary: nm w)
  case Nil
  then show ?case by auto
next
  case (Cons item rest)
  obtain name path where item: "item = (name, path)" by (cases item)
  let ?w1 = "notify cb (StageNormalize name) w"
  obtain r1 w2 where step:
    "normalize_to_target_i L E ff path (outwav_of td name) b (float_lit L ''-1.5'')
       (float_lit L ''11.0'') 48000 2 ?w1 = (r1, w2)"
    by (cases "normalize_to_target_i L E ff path (outwav_of td name) b (float_lit L ''-1.5'')
       (float_lit L ''11.0'') 48000 2 ?w1")
  from normalize_step [OF step] obtain res where
    tr2: "trace w2 = trace ?w1 @ [Normalize ff path (outwav_of td name) b res]"
    by blast
  show ?case
  proof (cases r1)
    case (Inl e)
    with Cons.prems item step have "r = Inl e" "w' = w2"
      by (simp_all add: Let_def)
    with tr2 show ?thesis
      by (intro exI [of _ "(if cb then [Status (StageNormalize name)] else [])
                             @ [Normalize ff path (outwav_of td name) b res]"])
         (simp add: notify_trace item)
  next
    case (Inr u)
    with Cons.prems item step have rest:
      "normalize_all L E cb ff td b rest (nm(name \<mapsto> outwav_of td name)) w2 = (r, w')"
      by (simp add: Let_def)
    from Cons.IH [OF rest] obtain evs where evs:
      "trace w' = trace w2 @ evs" "measure_calls evs = []" "concat_calls evs = []"
      "tempdirs evs = []"
      "prefix (normalize_calls evs) (map (\<lambda>(n, p). (p, outwav_of td n, b)) rest)"
      "\<forall>nm'. r = Inr nm' \<longrightarrow>
         normalize_calls evs = map (\<lambda>(n, p). (p, outwav_of td n, b)) rest
         \<and> (\<forall>k. nm' k = (if k \<in> fst ` set rest then Some (outwav_of td k)
                            else (nm(name \<mapsto> outwav_of td name)) k))"
      by blast
    show ?thesis
      using evs tr2
      by (intro exI [of _ "(if cb then [Status (StageNormalize name)] else [])
                             @ [Normalize ff path (outwav_of td name) b res] @ evs"])
         (auto simp: notify_trace item image_iff Bex_def)
  qed
qed







lemma subscript_all_map:
  assumes "\<forall>k \<in> set ks. d k = Some (g k)"
  shows "subscript_all d ks = Inr (map g ks)"
  using assms by (induction ks) (simp_all add: subscript_def)

lemma CONCAT_ORDER_keys: "set CONCAT_ORDER \<subseteq> fst ` set (episode_files folder)"
  by (simp add: CONCAT_ORDER_def episode_files_def)

lemma workspace_body_cases:
  assumes "workspace_body L E cb ff (episode_files folder) b td n out w = (r, w')"
  obtains
    (NormFail) e where
      "normalize_all L E cb ff td b (episode_files folder) Map.empty w = (Inl e, w')"
      "r = Inl e"
  | (Concat) nm w1 r0 where
      "normalize_all L E cb ff td b (episode_files folder) Map.empty w = (Inr nm, w1)"
      "concatenate_audio E ff (map (outwav_of td) CONCAT_ORDER) (output_path_of out n) 2
         (notify cb StageConcat w1) = (r0, w')"
      "r = (case r0 of Inl e \<Rightarrow> Inl e | Inr u \<Rightarrow> Inr (output_path_of out n))"
proof -
  obtain r1 w1 where na:
    "normalize_all L E cb ff td b (episode_files folder) Map.empty w = (r1, w1)"
    by (cases "normalize_all L E cb ff td b (episode_files folder) Map.empty w")
  show thesis
  proof (cases r1)
    case (Inl e)
    with assms na have "r = Inl e" "w' = w1" by (simp_all add: workspace_body_def)
    with na Inl show thesis by (intro NormFail) simp_all
  next
    case (Inr nm)
    from normalize_all_trace [OF na] Inr have
      "\<forall>k. nm k = (if k \<in> fst ` set (episode_files folder) then Some (outwav_of td k)
                   else Map.empty k)"
      by blast
    with CONCAT_ORDER_keys have "\<forall>k \<in> set CONCAT_ORDER. nm k = Some (outwav_of td k)"
      by auto
    then have sub: "subscript_all nm CONCAT_ORDER = Inr (map (outwav_of td) CONCAT_ORDER)"
      by (rule subscript_all_map)
    obtain r0 w3 where ca:
      "concatenate_audio E ff (map (outwav_of td) CONCAT_ORDER) (output_path_of out n) 2
         (notify cb StageConcat w1) = (r0, w3)"
      by (cases "concatenate_audio E ff (map (outwav_of td) CONCAT_ORDER)
                   (output_path_of out n) 2 (notify cb StageConcat w1)")
    with assms na Inr sub have
      "r = (case r0 of Inl e \<Rightarrow> Inl e | Inr u \<Rightarrow> Inr (output_path_of out n))" "w' = w3"
      by (auto simp: workspace_body_def Let_def split: sum.splits)
    with na Inr ca show thesis by (intro Concat) simp_all
  qed
qed

lemma jingle_path:
  "subscript (map_of (episode_files folder)) ''jingle_vorne''
     = Inr (path_join folder ''jingle_vorne.mp3'')"
  by (simp add: subscript_def episode_files_def)

lemma process_episode_cases:
  assumes "process_episode L E folder n out cb w = (r, w')"
  obtains
    (NoTool) "which_or_bundled E (ffmpeg_name E) (fs w) = None
                \<or> which_or_bundled E (ffmpeg_name E) (fs w) = Some []"
      "r = Inl (RuntimeError tool_not_found_msg)" "w' = w"
  | (Missing) ff where
      "which_or_bundled E (ffmpeg_name E) (fs w) = Some ff" "ff \<noteq> []"
      "missing_files (fs w) (episode_files folder) \<noteq> []"
      "r = Inl (RuntimeError (missing_files_msg (missing_files (fs w) (episode_files folder))))"
      "w' = w"
  | (MeasureFail) ff e where
      "which_or_bundled E (ffmpeg_name E) (fs w) = Some ff" "ff \<noteq> []"
      "missing_files (fs w) (episode_files folder) = []"
      "measure_integrated_loudness L E ff (path_join folder ''jingle_vorne.mp3'')
         (notify cb StageBaseline w) = (Inl e, w')"
      "r = Inl e"
  | (TempFail) ff b e where
      "which_or_bundled E (ffmpeg_name E) (fs w) = Some ff" "ff \<noteq> []"
      "missing_files (fs w) (episode_files folder) = []"
      "measure_integrated_loudness L E ff (path_join folder ''jingle_vorne.mp3'')
         (notify cb StageBaseline w) = (Inr b, w')"
      "mkdtemp E ''podcast_'' (fs w') = Inl e"
      "r = Inl e"
  | (Body) ff b w2 td w4 where
      "which_or_bundled E (ffmpeg_name E) (fs w) = Some ff" "ff \<noteq> []"
      "missing_files (fs w) (episode_files folder) = []"
      "measure_integrated_loudness L E ff (path_join folder ''jingle_vorne.mp3'')
         (notify cb StageBaseline w) = (Inr b, w2)"
      "mkdtemp E ''podcast_'' (fs w2) = Inr td"
      "workspace_body L E cb ff (episode_files folder) b td n out
         (record_event (TempDir td) (w2\<lparr>fs := (fs w2)(td := True)\<rparr>)) = (r, w4)"
      "w' = w4\<lparr>fs := rmtree td (fs w4)\<rparr>"
proof (cases "which_or_bundled E (ffmpeg_name E) (fs w)")
  case None
  with assms have "r = Inl (RuntimeError tool_not_found_msg)" "w' = w"
    by (auto simp: process_episode_def)
  with None show thesis by (intro NoTool) simp_all
next
  case (Some ff)
  show thesis
  proof (cases "ff = []")
    case True
    with assms Some have "r = Inl (RuntimeError tool_not_found_msg)" "w' = w"
      by (auto simp: process_episode_def)
    with Some True show thesis by (intro NoTool) simp_all
  next
    case ff: False
    show thesis
    proof (cases "missing_files (fs w) (episode_files folder) = []")
      case False
      with assms Some ff have
        "r = Inl (RuntimeError (missing_files_msg (missing_files (fs w) (episode_files folder))))"
        "w' = w"
        by (auto simp: process_episode_def Let_def)
      with Some ff False show thesis by (intro Missing) simp_all
    next
      case nomiss: True
      obtain rm w2 where m:
        "measure_integrated_loudness L E ff (path_join folder ''jingle_vorne.mp3'')
           (notify cb StageBaseline w) = (rm, w2)"
        by (cases "measure_integrated_loudness L E ff (path_join folder ''jingle_vorne.mp3'')
           (notify cb StageBaseline w)")
      show thesis
      proof (cases rm)
        case (Inl e)
        with assms Some ff nomiss m have "r = Inl e" "w' = w2"
          by (auto simp: process_episode_def Let_def jingle_path)
        with Some ff nomiss m Inl show thesis by (intro MeasureFail) simp_all
      next
        case (Inr b)
        show thesis
        proof (cases "mkdtemp E ''podcast_'' (fs w2)")
          case e: (Inl e)
          with assms Some ff nomiss m Inr have "r = Inl e" "w' = w2"
            by (auto simp: process_episode_def Let_def jingle_path)
          with Some ff nomiss m Inr e show thesis by (intro TempFail) simp_all
        next
          case td: (Inr td)
          obtain rb w4 where wb:
            "workspace_body L E cb ff (episode_files folder) b td n out
               (record_event (TempDir td) (w2\<lparr>fs := (fs w2)(td := True)\<rparr>)) = (rb, w4)"
            by (cases "workspace_body L E cb ff (episode_files folder) b td n out
               (record_event (TempDir td) (w2\<lparr>fs := (fs w2)(td := True)\<rparr>))")
          with assms Some ff nomiss m Inr td have "r = rb" "w' = w4\<lparr>fs := rmtree td (fs w4)\<rparr>"
            by (auto simp: process_episode_def Let_def jingle_path)
          with Some ff nomiss m Inr td wb show thesis by (intro Body) simp_all
        qed
      qed
    qed
  qed
qed

subsection \<open>The first two steps, and the concrete environment\<close>

lemma no_tool_fails:
  assumes "which_or_bundled E (ffmpeg_name E) (fs w) = None
             \<or> which_or_bundled E (ffmpeg_name E) (fs w) = Some []"
  shows "process_episode L E folder n out cb w = (Inl (RuntimeError tool_not_found_msg), w)"
  using assms by (auto simp: process_episode_def)

lemma missing_fails:
  assumes "which_or_bundled E (ffmpeg_name E) (fs w) = Some ff" and "ff \<noteq> []"
    and "missing_files (fs w) (episode_files folder) \<noteq> []"
  shows "process_episode L E folder n out cb w =
           (Inl (RuntimeError (missing_files_msg (missing_files (fs w) (episode_files folder)))), w)"
  using assms by (auto simp: process_episode_def Let_def)

lemma sample_no_tool:
  "which_or_bundled (sample_env False a d c) (ffmpeg_name (sample_env False a d c))
     (fs (sample_world ps)) = (if ''/app/bin/ffmpeg'' \<in> set ps then Some ''/app/bin/ffmpeg'' else None)"
  by (simp add: which_or_bundled_def sample_env_def ffmpeg_name_def resource_path_def
        path_join_def sample_world_def)

lemma sample_tool:
  "''/app/bin/ffmpeg'' \<notin> set ps \<Longrightarrow>
   which_or_bundled (sample_env True a d c) (ffmpeg_name (sample_env True a d c))
     (fs (sample_world ps)) = Some ''/usr/bin/ffmpeg''"
  by (simp add: which_or_bundled_def sample_env_def ffmpeg_name_def resource_path_def
        path_join_def sample_world_def)

lemma sample_missing_four:
  "missing_files (fs (sample_world four_clips)) (episode_files ''/ep'')
     = [''outro.mp3'', ''jingle_hinten.mp3'']"
  by (simp add: missing_files_def sample_world_def four_clips_def episode_files_def path_join_def)

lemma sample_missing_none:
  "missing_files (fs (sample_world [])) (episode_files ''/ep'')
     = [''intro.mp3'', ''vorab.mp3'', ''kapitel.mp3'', ''outro.mp3'', ''jingle_vorne.mp3'',
        ''jingle_hinten.mp3'']"
  by (simp add: missing_files_def sample_world_def episode_files_def path_join_def)


lemma str_join_member:
  assumes "x \<in> set xs"
  shows "sublist x (str_join sep xs)"
  using assms
proof (induction sep xs rule: str_join.induct)
  case (1 sep)
  then show ?case by simp
next
  case (2 sep y)
  then show ?case by simp
next
  case (3 sep y z zs)
  show ?case
  proof (cases "x = y")
    case True
    have "sublist y ([] @ y @ (sep @ str_join sep (z # zs)))" by (rule sublist_appendI)
    with True show ?thesis by simp
  next
    case False
    with 3 have "sublist x (str_join sep (z # zs))" by simp
    then have "sublist x ((y @ sep) @ str_join sep (z # zs))"
      by (simp add: sublist_append)
    then show ?thesis by simp
  qed
qed

lemma missing_listed:
  assumes "(role, path) \<in> set files" and "\<not> f path"
  shows "sublist (''  - '' @ role @ ''.mp3'') (missing_files_msg (missing_files f files))"
proof -
  from assms have "role @ ''.mp3'' \<in> set (missing_files f files)"
    by (force simp: missing_files_def)
  then have "''  - '' @ role @ ''.mp3''
               \<in> set (map (\<lambda>m. ''  - '' @ m) (missing_files f files))"
    by simp
  then have "sublist (''  - '' @ role @ ''.mp3'')
               (str_join nl (map (\<lambda>m. ''  - '' @ m) (missing_files f files)))"
    by (rule str_join_member)
  then have "sublist (''  - '' @ role @ ''.mp3'')
               ((''Fehlende Dateien:'' @ nl)
                  @ str_join nl (map (\<lambda>m. ''  - '' @ m) (missing_files f files)))"
    by (simp only: sublist_append) blast
  then show ?thesis
    by (simp only: missing_files_msg_def append_assoc)
qed

lemma missing_nonempty:
  assumes "(role, path) \<in> set files" and "\<not> f path"
  shows "missing_files f files \<noteq> []"
  using assms by (auto simp: missing_files_def filter_empty_conv)

subsection \<open>The analyzer\<close>

lemma measure_parsed:
  assumes "popen E (measure_cmd ff infile) (fs w) = (Inr (0, out, err), f')"
    and "re_findall_braces err \<noteq> []"
    and "json_loads L (last (re_findall_braces err)) = Inr (JObj d)"
    and "d ''input_i'' = Some v" and "\<not> is_none v" and "lower (py_str L v) \<noteq> ''nan''"
  shows "measure_integrated_loudness L E ff infile w
           = (py_float L v, record_event (Measure ff infile (Inr (0, out, err))) (w\<lparr>fs := f'\<rparr>))"
  using assms
  by (simp add: measure_integrated_loudness_def run_cmd_def Let_def dict_get_def)



lemma sample_matches_two:
  "re_findall_braces two_blocks = [block_3000, block_2350]"
  by (simp add: re_findall_braces_def two_blocks_def block_3000_def block_2350_def nl_def)

lemma sample_popen_measure:
  "popen (sample_env t a d c) (measure_cmd ff infile) f = (Inr (a, [], d), f)"
  by (simp add: sample_env_def sample_popen_def measure_cmd_def)

lemma sample_loads_2350:
  "json_loads sample_lib block_2350 = Inr (JObj [''input_i'' \<mapsto> JStr ''-23.50''])"
  by (simp add: sample_lib_def sample_loads_def)




subsection \<open>The shape of a run\<close>


lemma body_shape [consumes 1, case_names NormalizeStopped Concatenated]:
  assumes "workspace_body L E cb ff (episode_files folder) b td n out w = (r, w')"
  obtains
    (NormalizeStopped) evs e where
      "trace w' = trace w @ evs"
      "measure_calls evs = []" "concat_calls evs = []" "tempdirs evs = []"
      "prefix (normalize_calls evs)
         (map (\<lambda>(role, path). (path, outwav_of td role, b)) (episode_files folder))"
      "r = Inl e"
  | (Concatenated) evs res where
      "trace w' = trace w @ evs @ (if cb then [Status StageConcat] else [])
                    @ [Concat ff (map (outwav_of td) CONCAT_ORDER) (output_path_of out n) res]"
      "measure_calls evs = []" "concat_calls evs = []" "tempdirs evs = []"
      "normalize_calls evs
         = map (\<lambda>(role, path). (path, outwav_of td role, b)) (episode_files folder)"
      "r = (case res of Inl e \<Rightarrow> Inl e
            | Inr (rc, out', err) \<Rightarrow>
                if rc \<noteq> 0 then Inl (RuntimeError (concat_failed_msg err))
                else Inr (output_path_of out n))"
  using assms
proof (cases rule: workspace_body_cases)
  case (NormFail e)
  from normalize_all_trace [OF NormFail(1)] obtain evs where
    "trace w' = trace w @ evs" "measure_calls evs = []" "concat_calls evs = []"
    "tempdirs evs = []"
    "prefix (normalize_calls evs)
       (map (\<lambda>(role, path). (path, outwav_of td role, b)) (episode_files folder))"
    by blast
  then show thesis using NormFail(2) by (rule NormalizeStopped)
next
  case (Concat nm w1 r0)
  from normalize_all_trace [OF Concat(1)] obtain evs where evs:
    "trace w1 = trace w @ evs" "measure_calls evs = []" "concat_calls evs = []"
    "tempdirs evs = []"
    "normalize_calls evs
       = map (\<lambda>(role, path). (path, outwav_of td role, b)) (episode_files folder)"
    by blast
  from concatenate_step [OF Concat(2)] obtain res where res:
    "trace w' = trace (notify cb StageConcat w1)
                  @ [Concat ff (map (outwav_of td) CONCAT_ORDER) (output_path_of out n) res]"
    "r0 = (case res of Inl e \<Rightarrow> Inl e
           | Inr (rc, out', err) \<Rightarrow>
               if rc \<noteq> 0 then Inl (RuntimeError (concat_failed_msg err)) else Inr ())"
    by blast
  have r: "r = (case res of Inl e \<Rightarrow> Inl e
                | Inr (rc, out', err) \<Rightarrow>
                    if rc \<noteq> 0 then Inl (RuntimeError (concat_failed_msg err))
                    else Inr (output_path_of out n))"
    using Concat(3) res(2) by (auto split: sum.splits prod.splits)
  have tr: "trace w' = trace w @ evs @ (if cb then [Status StageConcat] else [])
                    @ [Concat ff (map (outwav_of td) CONCAT_ORDER) (output_path_of out n) res]"
    using evs(1) res(1) by (simp add: notify_trace)
  from tr evs(2-5) r show thesis by (rule Concatenated)
qed

lemma run_shape [consumes 2, case_names Early Stopped NormalizeFailed ConcatReached]:
  assumes "trace w = []" and "process_episode L E folder n out cb w = (r, w')"
  obtains
    (Early) e where "trace w' = []" "r = Inl e"
  | (Stopped) ff res e where
      "trace w' = (if cb then [Status StageBaseline] else [])
                    @ [Measure ff (path_join folder ''jingle_vorne.mp3'') res]"
      "r = Inl e"
  | (NormalizeFailed) ff b res td evs e where
      "which_or_bundled E (ffmpeg_name E) (fs w) = Some ff"
      "fst (measure_integrated_loudness L E ff (path_join folder ''jingle_vorne.mp3'')
              (notify cb StageBaseline w)) = Inr b"
      "trace w' = (if cb then [Status StageBaseline] else [])
                    @ [Measure ff (path_join folder ''jingle_vorne.mp3'') res, TempDir td] @ evs"
      "measure_calls evs = []" "concat_calls evs = []" "tempdirs evs = []"
      "prefix (normalize_calls evs)
         (map (\<lambda>(role, path). (path, outwav_of td role, b)) (episode_files folder))"
      "r = Inl e"
      "\<forall>p. within td p \<longrightarrow> \<not> fs w' p"
  | (ConcatReached) ff b res td evs resc where
      "which_or_bundled E (ffmpeg_name E) (fs w) = Some ff"
      "fst (measure_integrated_loudness L E ff (path_join folder ''jingle_vorne.mp3'')
              (notify cb StageBaseline w)) = Inr b"
      "trace w' = (if cb then [Status StageBaseline] else [])
                    @ [Measure ff (path_join folder ''jingle_vorne.mp3'') res, TempDir td] @ evs
                    @ (if cb then [Status StageConcat] else [])
                    @ [Concat ff (map (outwav_of td) CONCAT_ORDER) (output_path_of out n) resc]"
      "measure_calls evs = []" "concat_calls evs = []" "tempdirs evs = []"
      "normalize_calls evs
         = map (\<lambda>(role, path). (path, outwav_of td role, b)) (episode_files folder)"
      "r = (case resc of Inl e \<Rightarrow> Inl e
            | Inr (rc, out', err) \<Rightarrow>
                if rc \<noteq> 0 then Inl (RuntimeError (concat_failed_msg err))
                else Inr (output_path_of out n))"
      "\<forall>p. within td p \<longrightarrow> \<not> fs w' p"
  using assms(2)
proof (cases rule: process_episode_cases)
  case NoTool
  with assms(1) show thesis by (intro Early) simp_all
next
  case (Missing ff)
  with assms(1) show thesis by (intro Early) simp_all
next
  case (MeasureFail ff e)
  from measure_step [OF MeasureFail(4)] assms(1) obtain res where
    "trace w' = (if cb then [Status StageBaseline] else [])
                  @ [Measure ff (path_join folder ''jingle_vorne.mp3'') res]"
    by (auto simp: notify_trace)
  then show thesis using MeasureFail(5) by (rule Stopped)
next
  case (TempFail ff b e)
  from measure_step [OF TempFail(4)] assms(1) obtain res where
    "trace w' = (if cb then [Status StageBaseline] else [])
                  @ [Measure ff (path_join folder ''jingle_vorne.mp3'') res]"
    by (auto simp: notify_trace)
  then show thesis using TempFail(6) by (rule Stopped)
next
  case (Body ff b w2 td w4)
  from measure_step [OF Body(4)] assms(1) obtain res where
    tr2: "trace w2 = (if cb then [Status StageBaseline] else [])
                  @ [Measure ff (path_join folder ''jingle_vorne.mp3'') res]"
    by (auto simp: notify_trace)
  have gone: "\<forall>p. within td p \<longrightarrow> \<not> fs w' p"
    using Body(7) by (simp add: rmtree_def)
  have m: "fst (measure_integrated_loudness L E ff (path_join folder ''jingle_vorne.mp3'')
                  (notify cb StageBaseline w)) = Inr b"
    using Body(4) by simp
  from Body(6) show thesis
  proof (cases rule: body_shape)
    case (NormalizeStopped evs e)
    have tr: "trace w' = (if cb then [Status StageBaseline] else [])
                    @ [Measure ff (path_join folder ''jingle_vorne.mp3'') res, TempDir td] @ evs"
      using Body(7) NormalizeStopped(1) tr2 by simp
    from Body(1) m tr NormalizeStopped(2-6) gone show thesis
      by (rule NormalizeFailed)
  next
    case (Concatenated evs resc)
    have tr: "trace w' = (if cb then [Status StageBaseline] else [])
                    @ [Measure ff (path_join folder ''jingle_vorne.mp3'') res, TempDir td] @ evs
                    @ (if cb then [Status StageConcat] else [])
                    @ [Concat ff (map (outwav_of td) CONCAT_ORDER) (output_path_of out n) resc]"
      using Body(7) Concatenated(1) tr2 by simp
    from Body(1) m tr Concatenated(2-6) gone show thesis
      by (rule ConcatReached)
  qed
qed

subsection \<open>The concrete run\<close>

lemma concat_cmd_nth3: "concat_cmd ff fl outp q ! 3 = ''-y''"
  by (simp add: concat_cmd_def Let_def)

lemma concat_cmd_last: "last (concat_cmd ff fl outp q) = outp"
  by (simp add: concat_cmd_def Let_def)

lemma concat_cmd_nth6: "concat_cmd ff fl outp q ! 6 \<noteq> ''-vn''"
proof (cases fl)
  case Nil
  then show ?thesis by (simp add: concat_cmd_def Let_def)
next
  case (Cons a rest)
  then show ?thesis
    by (cases rest) (simp_all add: concat_cmd_def Let_def)
qed

lemma sample_popen_concat:
  "popen (sample_env t a d c) (concat_cmd ff fl outp q) f =
     (if c = 0 then (Inr (0, [], []), f(outp := True))
      else (Inr (c, [], ''Invalid data found''), f))"
  by (simp add: sample_env_def sample_popen_def concat_cmd_nth3 concat_cmd_nth6 concat_cmd_last)

lemma sample_popen_normalize:
  "popen (sample_env t a d c) (normalize_cmd L ff i outf b tp lra sr ch) f =
     (Inr (0, [], []), f(outf := True))"
  by (simp add: sample_env_def sample_popen_def normalize_cmd_def Let_def)

lemma sample_normalize:
  "normalize_to_target_i L (sample_env t a d c) ff i outf b tp lra sr ch w =
     (Inr (), record_event (Normalize ff i outf b (Inr (0, [], []))) (w\<lparr>fs := (fs w)(outf := True)\<rparr>))"
  by (simp add: normalize_to_target_i_def run_cmd_def sample_popen_normalize)

lemma sample_concatenate:
  "concatenate_audio (sample_env t a d c) ff fl outp q w =
     (if c = 0 then
        (Inr (), record_event (Concat ff fl outp (Inr (0, [], []))) (w\<lparr>fs := (fs w)(outp := True)\<rparr>))
      else
        (Inl (RuntimeError (concat_failed_msg ''Invalid data found'')),
         record_event (Concat ff fl outp (Inr (c, [], ''Invalid data found''))) w))"
  by (simp add: concatenate_audio_def run_cmd_def sample_popen_concat)

lemma sample_measure:
  "measure_integrated_loudness sample_lib (sample_env t 0 two_blocks c) ff infile w =
     (Inr (- 47, 1), record_event (Measure ff infile (Inr (0, [], two_blocks))) w)"
proof -
  have "measure_integrated_loudness sample_lib (sample_env t 0 two_blocks c) ff infile w =
     (py_float sample_lib (JStr ''-23.50''),
      record_event (Measure ff infile (Inr (0, [], two_blocks))) (w\<lparr>fs := fs w\<rparr>))"
  proof (rule measure_parsed [where d = "[''input_i'' \<mapsto> JStr ''-23.50'']"])
    show "popen (sample_env t 0 two_blocks c) (measure_cmd ff infile) (fs w)
            = (Inr (0, [], two_blocks), fs w)"
      by (rule sample_popen_measure)
    show "re_findall_braces two_blocks \<noteq> []"
      by (simp add: sample_matches_two)
    show "json_loads sample_lib (last (re_findall_braces two_blocks))
            = Inr (JObj [''input_i'' \<mapsto> JStr ''-23.50''])"
      by (simp add: sample_matches_two sample_loads_2350)
    show "[''input_i'' \<mapsto> JStr ''-23.50''] ''input_i'' = Some (JStr ''-23.50'' :: dyadic jvalue)"
      by simp
    show "\<not> is_none (JStr ''-23.50'' :: dyadic jvalue)"
      by (simp add: is_none_def)
    show "lower (py_str sample_lib (JStr ''-23.50'')) \<noteq> ''nan''"
      by (simp add: sample_lib_def sample_str_def lower_def lower_char_def)
  qed
  then show ?thesis
    by (simp add: sample_lib_def sample_float_def)
qed

lemma sample_mkdtemp: "mkdtemp (sample_env t a d c) ''podcast_'' f = Inr ''/tmp/podcast_k3x9''"
  by (simp add: sample_env_def)


lemma str_nat_small: "n < 10 \<Longrightarrow> str_nat n = [digit_char n]"
  by (subst str_nat.simps) simp

lemma str_nat_big: "10 \<le> n \<Longrightarrow> str_nat n = str_nat (n div 10) @ [digit_char (n mod 10)]"
  by (subst str_nat.simps) simp

lemmas str_eval = str_nat_small str_nat_big digit_char_def str_int_def

lemma sample_output_path: "output_path_of ''/out'' 7 = ''/out/Kapitel 7.mp3''"
  by (simp add: output_path_of_def path_join_def str_eval)

lemma sample_body_result:
  "fst (workspace_body sample_lib (sample_env t a d c) True ff (episode_files ''/ep'') b td 7
          ''/out'' w)
     = (if c = 0 then Inr ''/out/Kapitel 7.mp3''
        else Inl (RuntimeError (concat_failed_msg ''Invalid data found'')))"
  by (simp add: workspace_body_def episode_files_def sample_normalize sample_concatenate
        Let_def CONCAT_ORDER_def subscript_def sample_output_path)

lemma sample_body_trace:
  "trace (snd (workspace_body sample_lib (sample_env t a d c) True ff (episode_files ''/ep'') b td
                 7 ''/out'' w))
     = trace w @
       [Status (StageNormalize ''intro''),
        Normalize ff ''/ep/intro.mp3'' (outwav_of td ''intro'') b (Inr (0, [], [])),
        Status (StageNormalize ''vorab''),
        Normalize ff ''/ep/vorab.mp3'' (outwav_of td ''vorab'') b (Inr (0, [], [])),
        Status (StageNormalize ''kapitel''),
        Normalize ff ''/ep/kapitel.mp3'' (outwav_of td ''kapitel'') b (Inr (0, [], [])),
        Status (StageNormalize ''outro''),
        Normalize ff ''/ep/outro.mp3'' (outwav_of td ''outro'') b (Inr (0, [], [])),
        Status (StageNormalize ''jingle_vorne''),
        Normalize ff ''/ep/jingle_vorne.mp3'' (outwav_of td ''jingle_vorne'') b (Inr (0, [], [])),
        Status (StageNormalize ''jingle_hinten''),
        Normalize ff ''/ep/jingle_hinten.mp3'' (outwav_of td ''jingle_hinten'') b (Inr (0, [], [])),
        Status StageConcat,
        Concat ff (map (outwav_of td) CONCAT_ORDER) ''/out/Kapitel 7.mp3''
          (if c = 0 then Inr (0, [], []) else Inr (c, [], ''Invalid data found''))]"
  by (simp add: workspace_body_def episode_files_def sample_normalize sample_concatenate
        Let_def CONCAT_ORDER_def subscript_def sample_output_path notify_def path_join_def)



lemma sample_run_unfold:
  assumes "''/app/bin/ffmpeg'' \<notin> set ps" and "set six_clips \<subseteq> set ps"
  shows "process_episode sample_lib (sample_env True 0 two_blocks c) ''/ep'' 7 ''/out'' True
           (sample_world ps)
         = (case workspace_body sample_lib (sample_env True 0 two_blocks c) True ''/usr/bin/ffmpeg''
                   (episode_files ''/ep'') (- 47, 1) ''/tmp/podcast_k3x9'' 7 ''/out''
                   \<lparr>fs = (\<lambda>p. p \<in> set ps)(''/tmp/podcast_k3x9'' := True),
                    trace = [Status StageBaseline,
                             Measure ''/usr/bin/ffmpeg'' ''/ep/jingle_vorne.mp3''
                               (Inr (0, [], two_blocks)),
                             TempDir ''/tmp/podcast_k3x9'']\<rparr> of
              (r, w4) \<Rightarrow> (r, w4\<lparr>fs := rmtree ''/tmp/podcast_k3x9'' (fs w4)\<rparr>))"
proof -
  have tool: "which_or_bundled (sample_env True 0 two_blocks c)
                (ffmpeg_name (sample_env True 0 two_blocks c)) (fs (sample_world ps))
              = Some ''/usr/bin/ffmpeg''"
    using assms(1) by (rule sample_tool)
  have nomiss: "missing_files (fs (sample_world ps)) (episode_files ''/ep'') = []"
    using assms(2)
    by (simp add: missing_files_def sample_world_def six_clips_def episode_files_def path_join_def)
  have jp: "path_join ''/ep'' ''jingle_vorne.mp3'' = ''/ep/jingle_vorne.mp3''"
    by (simp add: path_join_def)
  show ?thesis
    unfolding process_episode_def Let_def tool nomiss jingle_path jp
    by (simp add: sample_measure sample_mkdtemp notify_def record_event_def sample_world_def)
qed

lemma sample_run_result:
  assumes "''/app/bin/ffmpeg'' \<notin> set ps" and "set six_clips \<subseteq> set ps"
  shows "fst (process_episode sample_lib (sample_env True 0 two_blocks c) ''/ep'' 7 ''/out'' True
           (sample_world ps))
         = (if c = 0 then Inr ''/out/Kapitel 7.mp3''
            else Inl (RuntimeError (concat_failed_msg ''Invalid data found'')))"
  unfolding sample_run_unfold [OF assms] by (simp only: split_beta fst_conv sample_body_result)

lemma sample_run_trace:
  assumes "''/app/bin/ffmpeg'' \<notin> set ps" and "set six_clips \<subseteq> set ps"
  shows "trace (snd (process_episode sample_lib (sample_env True 0 two_blocks c) ''/ep'' 7
           ''/out'' True (sample_world ps)))
         = [Status StageBaseline,
            Measure ''/usr/bin/ffmpeg'' ''/ep/jingle_vorne.mp3'' (Inr (0, [], two_blocks)),
            TempDir ''/tmp/podcast_k3x9'',
            Status (StageNormalize ''intro''),
            Normalize ''/usr/bin/ffmpeg'' ''/ep/intro.mp3''
              ''/tmp/podcast_k3x9/intro_norm.wav'' (- 47, 1) (Inr (0, [], [])),
            Status (StageNormalize ''vorab''),
            Normalize ''/usr/bin/ffmpeg'' ''/ep/vorab.mp3''
              ''/tmp/podcast_k3x9/vorab_norm.wav'' (- 47, 1) (Inr (0, [], [])),
            Status (StageNormalize ''kapitel''),
            Normalize ''/usr/bin/ffmpeg'' ''/ep/kapitel.mp3''
              ''/tmp/podcast_k3x9/kapitel_norm.wav'' (- 47, 1) (Inr (0, [], [])),
            Status (StageNormalize ''outro''),
            Normalize ''/usr/bin/ffmpeg'' ''/ep/outro.mp3''
              ''/tmp/podcast_k3x9/outro_norm.wav'' (- 47, 1) (Inr (0, [], [])),
            Status (StageNormalize ''jingle_vorne''),
            Normalize ''/usr/bin/ffmpeg'' ''/ep/jingle_vorne.mp3''
              ''/tmp/podcast_k3x9/jingle_vorne_norm.wav'' (- 47, 1) (Inr (0, [], [])),
            Status (StageNormalize ''jingle_hinten''),
            Normalize ''/usr/bin/ffmpeg'' ''/ep/jingle_hinten.mp3''
              ''/tmp/podcast_k3x9/jingle_hinten_norm.wav'' (- 47, 1) (Inr (0, [], [])),
            Status StageConcat,
            Concat ''/usr/bin/ffmpeg''
              [''/tmp/podcast_k3x9/jingle_vorne_norm.wav'', ''/tmp/podcast_k3x9/intro_norm.wav'',
               ''/tmp/podcast_k3x9/jingle_hinten_norm.wav'', ''/tmp/podcast_k3x9/vorab_norm.wav'',
               ''/tmp/podcast_k3x9/kapitel_norm.wav'', ''/tmp/podcast_k3x9/jingle_vorne_norm.wav'',
               ''/tmp/podcast_k3x9/outro_norm.wav'', ''/tmp/podcast_k3x9/jingle_hinten_norm.wav'']
              ''/out/Kapitel 7.mp3''
              (if c = 0 then Inr (0, [], []) else Inr (c, [], ''Invalid data found''))]"
  unfolding sample_run_unfold [OF assms]
  by (simp add: split_beta sample_body_trace CONCAT_ORDER_def outwav_of_def path_join_def)


subsection \<open>What a run leaves in the file system\<close>

lemma within_outwav:
  assumes "role \<noteq> []" and "hd role \<noteq> CHR ''/''"
  shows "within td (outwav_of td role)"
proof -
  from assms obtain c cs where "role = c # cs" "c \<noteq> CHR ''/''"
    by (cases role) auto
  then show ?thesis
    by (auto simp: within_def outwav_of_def path_join_def)
qed

lemma within_outwav_roles:
  assumes "(role, path) \<in> set (episode_files folder)"
  shows "within td (outwav_of td role)"
  using assms by (auto simp: episode_files_def intro!: within_outwav)


lemma body_tempdir_kept:
  assumes "workspace_body L E cb ff (episode_files folder) b td n out w = (r, w')"
    and "x \<in> set (tempdirs (trace w))"
  shows "x \<in> set (tempdirs (trace w'))"
  using assms(1)
proof (cases rule: body_shape)
  case (NormalizeStopped evs e)
  with assms(2) show ?thesis by simp
next
  case (Concatenated evs res)
  with assms(2) show ?thesis by simp
qed


lemma run_output_written:
  assumes "process_episode L E folder n out cb w = (Inr p, w')"
    and "concat_writes_output E"
    and "\<forall>td \<in> set (tempdirs (trace w')). \<not> within td p"
  shows "fs w' p"
  using assms(1)
proof (cases rule: process_episode_cases)
  case (Body ff b w2 td w4)
  let ?w3 = "record_event (TempDir td) (w2\<lparr>fs := (fs w2)(td := True)\<rparr>)"
  have "td \<in> set (tempdirs (trace ?w3))" by simp
  from body_tempdir_kept [OF Body(6) this] Body(7) have "td \<in> set (tempdirs (trace w'))"
    by simp
  with assms(3) have outside: "\<not> within td p" by blast
  from Body(6) have "fs w4 p"
  proof (cases rule: workspace_body_cases)
    case (NormFail e)
    then show ?thesis by simp
  next
    case (Concat nm w1 r0)
    from Concat(3) have p: "p = output_path_of out n" and r0: "r0 = Inr ()"
      by (auto split: sum.splits)
    from concatenate_step [OF Concat(2)] obtain res where
      res: "popen E (concat_cmd ff (map (outwav_of td) CONCAT_ORDER) (output_path_of out n) 2)
              (fs (notify cb StageConcat w1)) = (res, fs w4)"
      and ok: "r0 = (case res of Inl e \<Rightarrow> Inl e
                     | Inr (rc, out', err) \<Rightarrow>
                         if rc \<noteq> 0 then Inl (RuntimeError (concat_failed_msg err))
                         else Inr ())"
      by blast
    from ok r0 obtain o' e' where "res = Inr (0, o', e')"
      by (auto split: sum.splits prod.splits if_splits)
    with res assms(2) p show ?thesis
      unfolding concat_writes_output_def by blast
  qed
  with outside Body(7) show ?thesis by (simp add: rmtree_def)
qed simp_all

subsection \<open>Successful runs\<close>

lemma success_calls:
  assumes "trace w = []" and "process_episode L E folder n out cb w = (Inr p, w')"
  shows "\<exists>ff b td. which_or_bundled E (ffmpeg_name E) (fs w) = Some ff
           \<and> fst (measure_integrated_loudness L E ff (path_join folder ''jingle_vorne.mp3'')
                    (notify cb StageBaseline w)) = Inr b
           \<and> measure_calls (trace w') = [(ff, path_join folder ''jingle_vorne.mp3'')]
           \<and> tempdirs (trace w') = [td]
           \<and> normalize_calls (trace w')
               = map (\<lambda>(role, path). (path, outwav_of td role, b)) (episode_files folder)
           \<and> concat_calls (trace w') = [(map (outwav_of td) CONCAT_ORDER, p)]
           \<and> p = output_path_of out n"
  using assms
proof (cases rule: run_shape)
  case (Early e)
  then show ?thesis by simp
next
  case (Stopped ff res e)
  then show ?thesis by simp
next
  case (NormalizeFailed ff b res td evs e)
  then show ?thesis by simp
next
  case (ConcatReached ff b res td evs resc)
  from ConcatReached(8) have p: "p = output_path_of out n"
    by (auto split: sum.splits prod.splits if_splits)
  have "measure_calls (trace w') = [(ff, path_join folder ''jingle_vorne.mp3'')]"
    and "tempdirs (trace w') = [td]"
    and "normalize_calls (trace w')
           = map (\<lambda>(role, path). (path, outwav_of td role, b)) (episode_files folder)"
    and "concat_calls (trace w') = [(map (outwav_of td) CONCAT_ORDER, p)]"
    using ConcatReached(3-7) p by simp_all
  with ConcatReached(1,2) p show ?thesis by blast
qed

lemma six_clips_ok:
  "''/app/bin/ffmpeg'' \<notin> set six_clips" "set six_clips \<subseteq> set six_clips"
  by (simp_all add: six_clips_def)

subsection \<open>Failures, and the concrete runs that fail\<close>


lemma runtime_error_class [simp]:
  "exc_class (RuntimeError msg) = ''RuntimeError''" "exc_msg (RuntimeError msg) = msg"
  by (simp_all add: RuntimeError_def)


lemma prefix_member: "prefix xs ys \<Longrightarrow> x \<in> set xs \<Longrightarrow> x \<in> set ys"
  by (auto simp: prefix_def)


lemma sample_writes: "concat_writes_output (sample_env t a d 0)"
  by (simp add: concat_writes_output_def sample_popen_concat)

lemma workspace_facts:
  assumes "trace w = []" and "process_episode L E folder n out cb w = (r, w')"
    and "td \<in> set (tempdirs (trace w'))"
  shows "tempdirs (trace w') = [td]"
    and "\<forall>p. within td p \<longrightarrow> \<not> fs w' p"
    and "\<forall>c \<in> set (normalize_calls (trace w')).
           \<exists>role path b. (role, path) \<in> set (episode_files folder)
                          \<and> c = (path, outwav_of td role, b)"
proof -
  have "tempdirs (trace w') = [td]
        \<and> (\<forall>p. within td p \<longrightarrow> \<not> fs w' p)
        \<and> (\<forall>c \<in> set (normalize_calls (trace w')).
              \<exists>role path b. (role, path) \<in> set (episode_files folder)
                             \<and> c = (path, outwav_of td role, b))"
    using assms(1,2)
  proof (cases rule: run_shape)
    case (Early e)
    with assms(3) show ?thesis by simp
  next
    case (Stopped ff res e)
    with assms(3) show ?thesis by (simp split: if_splits)
  next
    case (NormalizeFailed ff b res td' evs e)
    from NormalizeFailed(3,6) have tds: "tempdirs (trace w') = [td']" by simp
    with assms(3) have td: "td' = td" by simp
    from NormalizeFailed(3) have nc: "normalize_calls (trace w') = normalize_calls evs"
      by simp
    have "\<forall>c \<in> set (normalize_calls (trace w')).
              \<exists>role path b. (role, path) \<in> set (episode_files folder)
                             \<and> c = (path, outwav_of td role, b)"
    proof
      fix c assume "c \<in> set (normalize_calls (trace w'))"
      with nc have "c \<in> set (normalize_calls evs)" by simp
      with NormalizeFailed(7) have
        "c \<in> set (map (\<lambda>(role, path). (path, outwav_of td' role, b)) (episode_files folder))"
        by (rule prefix_member)
      with td show "\<exists>role path b. (role, path) \<in> set (episode_files folder)
                             \<and> c = (path, outwav_of td role, b)"
        by auto
    qed
    with tds td NormalizeFailed(9) show ?thesis by simp
  next
    case (ConcatReached ff b res td' evs resc)
    from ConcatReached(3,6) have tds: "tempdirs (trace w') = [td']" by simp
    with assms(3) have td: "td' = td" by simp
    from ConcatReached(3) have nc: "normalize_calls (trace w') = normalize_calls evs"
      by simp
    have "\<forall>c \<in> set (normalize_calls (trace w')).
              \<exists>role path b. (role, path) \<in> set (episode_files folder)
                             \<and> c = (path, outwav_of td role, b)"
    proof
      fix c assume "c \<in> set (normalize_calls (trace w'))"
      with nc ConcatReached(7) have
        "c \<in> set (map (\<lambda>(role, path). (path, outwav_of td' role, b)) (episode_files folder))"
        by simp
      with td show "\<exists>role path b. (role, path) \<in> set (episode_files folder)
                             \<and> c = (path, outwav_of td role, b)"
        by auto
    qed
    with tds td ConcatReached(9) show ?thesis by simp
  qed
  then show "tempdirs (trace w') = [td]"
    and "\<forall>p. within td p \<longrightarrow> \<not> fs w' p"
    and "\<forall>c \<in> set (normalize_calls (trace w')).
           \<exists>role path b. (role, path) \<in> set (episode_files folder)
                          \<and> c = (path, outwav_of td role, b)"
    by blast+
qed

lemma sample_outside: "\<not> within ''/tmp/podcast_k3x9'' ''/out/Kapitel 7.mp3''"
  by (simp add: within_def path_join_def)

lemma sample_inside:
  "within ''/tmp/podcast_k3x9'' ''/tmp/podcast_k3x9''"
  "within ''/tmp/podcast_k3x9'' ''/tmp/podcast_k3x9/intro_norm.wav''"
  by (simp_all add: within_def path_join_def)




section \<open>The claims\<close>

text \<open>The error kinds of the specification are the raise sites of the source, each a
  \<^verbatim>\<open>RuntimeError\<close> with its own message: \<open>tool_not_found_msg\<close> (ToolNotFoundError),
  \<open>missing_files_msg\<close> (MissingFilesError), \<open>analysis_failed_msg\<close> (AnalysisError),
  \<open>parse_failed_msg\<close> and \<open>invalid_loudness_msg\<close> (ParseError), \<open>normalize_failed_msg\<close>
  (NormalizationError) and \<open>concat_failed_msg\<close> (ConcatenationError). The roles
  \<^verbatim>\<open>jingle_lead\<close> and \<^verbatim>\<open>jingle_trail\<close> are the keys \<^verbatim>\<open>jingle_vorne\<close> and
  \<^verbatim>\<open>jingle_hinten\<close>.\<close>

subsection \<open>C1: one measurement, six normalisations to it\<close>

text \<open>C1. In every successful run the trace holds exactly one call of the loudness
  analyzer, on the \<^verbatim>\<open>jingle_vorne\<close> clip, and exactly six normalize calls, one for each
  file of the Clip Set in the order of the dict; the target loudness passed to each of them,
  the one for \<^verbatim>\<open>jingle_vorne\<close> included, is the value \<open>b\<close> that this one measurement
  returned.\<close>

theorem one_baseline_for_six_normalisations:
  assumes "trace w = []" and "fst (process_episode L E folder n out cb w) = Inr p"
  shows "\<exists>ff b. which_or_bundled E (ffmpeg_name E) (fs w) = Some ff
           \<and> measure_calls (trace (snd (process_episode L E folder n out cb w)))
               = [(ff, path_join folder ''jingle_vorne.mp3'')]
           \<and> fst (measure_integrated_loudness L E ff (path_join folder ''jingle_vorne.mp3'')
                    (notify cb StageBaseline w)) = Inr b
           \<and> map (\<lambda>(infile, outfile, target_i). target_i)
                 (normalize_calls (trace (snd (process_episode L E folder n out cb w))))
               = [b, b, b, b, b, b]
           \<and> map (\<lambda>(infile, outfile, target_i). infile)
                 (normalize_calls (trace (snd (process_episode L E folder n out cb w))))
               = map snd (episode_files folder)"
proof -
  from assms(2) have run: "process_episode L E folder n out cb w
                             = (Inr p, snd (process_episode L E folder n out cb w))"
    by (metis prod.collapse)
  from success_calls [OF assms(1) run] obtain ff b td where
    "which_or_bundled E (ffmpeg_name E) (fs w) = Some ff"
    "fst (measure_integrated_loudness L E ff (path_join folder ''jingle_vorne.mp3'')
            (notify cb StageBaseline w)) = Inr b"
    "measure_calls (trace (snd (process_episode L E folder n out cb w)))
       = [(ff, path_join folder ''jingle_vorne.mp3'')]"
    and nc: "normalize_calls (trace (snd (process_episode L E folder n out cb w)))
       = map (\<lambda>(role, path). (path, outwav_of td role, b)) (episode_files folder)"
    by blast
  moreover have "map (\<lambda>(infile, outfile, target_i). target_i)
                   (map (\<lambda>(role, path). (path, outwav_of td role, b)) (episode_files folder))
                 = [b, b, b, b, b, b]"
    by (simp add: episode_files_def)
  moreover have "map (\<lambda>(infile, outfile, target_i). infile)
                   (map (\<lambda>(role, path). (path, outwav_of td role, b)) (episode_files folder))
                 = map snd (episode_files folder)"
    by (simp add: episode_files_def)
  ultimately show ?thesis by (simp only: nc) blast
qed

theorem one_baseline_for_six_normalisations_witness:
  "trace (sample_world six_clips) = []
   \<and> fst (process_episode sample_lib (sample_env True 0 two_blocks 0) ''/ep'' 7 ''/out'' True
            (sample_world six_clips)) = Inr ''/out/Kapitel 7.mp3''
   \<and> measure_calls (trace (snd (process_episode sample_lib (sample_env True 0 two_blocks 0)
          ''/ep'' 7 ''/out'' True (sample_world six_clips))))
       = [(''/usr/bin/ffmpeg'', ''/ep/jingle_vorne.mp3'')]
   \<and> fst (measure_integrated_loudness sample_lib (sample_env True 0 two_blocks 0)
            ''/usr/bin/ffmpeg'' ''/ep/jingle_vorne.mp3''
            (notify True StageBaseline (sample_world six_clips))) = Inr (- 47, 1)
   \<and> map (\<lambda>(infile, outfile, target_i). target_i)
         (normalize_calls (trace (snd (process_episode sample_lib
            (sample_env True 0 two_blocks 0) ''/ep'' 7 ''/out'' True (sample_world six_clips)))))
       = [(- 47, 1), (- 47, 1), (- 47, 1), (- 47, 1), (- 47, 1), (- 47, 1)]"
proof -
  let ?E = "sample_env True 0 two_blocks 0"
  let ?run = "process_episode sample_lib ?E ''/ep'' 7 ''/out'' True (sample_world six_clips)"
  have h1: "trace (sample_world six_clips) = []"
    by (simp add: sample_world_def)
  have h2: "fst ?run = Inr ''/out/Kapitel 7.mp3''"
    by (simp add: sample_run_result [OF six_clips_ok])
  have tool: "which_or_bundled ?E (ffmpeg_name ?E) (fs (sample_world six_clips))
                = Some ''/usr/bin/ffmpeg''"
    by (rule sample_tool) (simp add: six_clips_def)
  have jp: "path_join ''/ep'' ''jingle_vorne.mp3'' = ''/ep/jingle_vorne.mp3''"
    by (simp add: path_join_def)
  have m: "fst (measure_integrated_loudness sample_lib ?E ''/usr/bin/ffmpeg''
                  ''/ep/jingle_vorne.mp3'' (notify True StageBaseline (sample_world six_clips)))
             = Inr (- 47, 1)"
    by (simp add: sample_measure)
  from one_baseline_for_six_normalisations [OF h1 h2] obtain ff b where
    f1: "which_or_bundled ?E (ffmpeg_name ?E) (fs (sample_world six_clips)) = Some ff"
    and f2: "measure_calls (trace (snd ?run)) = [(ff, path_join ''/ep'' ''jingle_vorne.mp3'')]"
    and f3: "fst (measure_integrated_loudness sample_lib ?E ff
                    (path_join ''/ep'' ''jingle_vorne.mp3'')
                    (notify True StageBaseline (sample_world six_clips))) = Inr b"
    and f4: "map (\<lambda>(infile, outfile, target_i). target_i) (normalize_calls (trace (snd ?run)))
               = [b, b, b, b, b, b]"
    by (elim exE conjE) (rule that)
  from f1 tool have ff: "ff = ''/usr/bin/ffmpeg''" by simp
  from f3 m have b: "b = (- 47, 1)" by (simp add: ff jp)
  from h1 h2 f2 m f4 show ?thesis
    by (simp add: ff b jp)
qed

subsection \<open>C2: the assembly order\<close>

text \<open>C2. In every successful run the trace holds exactly one concatenate call; its input
  list has the eight entries of \<open>CONCAT_ORDER\<close> in that order, each the file that the one
  normalize call of its role wrote into the workspace, so the first and the sixth entry are
  the same path and so are the third and the eighth; only six files were normalised.\<close>

theorem assembly_order_of_eight:
  assumes "trace w = []" and "fst (process_episode L E folder n out cb w) = Inr p"
  shows "\<exists>td files.
           tempdirs (trace (snd (process_episode L E folder n out cb w))) = [td]
           \<and> concat_calls (trace (snd (process_episode L E folder n out cb w))) = [(files, p)]
           \<and> files = [outwav_of td ''jingle_vorne'', outwav_of td ''intro'',
                       outwav_of td ''jingle_hinten'', outwav_of td ''vorab'',
                       outwav_of td ''kapitel'', outwav_of td ''jingle_vorne'',
                       outwav_of td ''outro'', outwav_of td ''jingle_hinten'']
           \<and> length files = 8 \<and> files ! 0 = files ! 5 \<and> files ! 2 = files ! 7
           \<and> map (\<lambda>(infile, outfile, target_i). (infile, outfile))
                 (normalize_calls (trace (snd (process_episode L E folder n out cb w))))
               = [(path_join folder ''intro.mp3'', outwav_of td ''intro''),
                  (path_join folder ''vorab.mp3'', outwav_of td ''vorab''),
                  (path_join folder ''kapitel.mp3'', outwav_of td ''kapitel''),
                  (path_join folder ''outro.mp3'', outwav_of td ''outro''),
                  (path_join folder ''jingle_vorne.mp3'', outwav_of td ''jingle_vorne''),
                  (path_join folder ''jingle_hinten.mp3'', outwav_of td ''jingle_hinten'')]"
proof -
  from assms(2) have run: "process_episode L E folder n out cb w
                             = (Inr p, snd (process_episode L E folder n out cb w))"
    by (metis prod.collapse)
  from success_calls [OF assms(1) run] obtain ff b td where
    td: "tempdirs (trace (snd (process_episode L E folder n out cb w))) = [td]"
    and nc: "normalize_calls (trace (snd (process_episode L E folder n out cb w)))
       = map (\<lambda>(role, path). (path, outwav_of td role, b)) (episode_files folder)"
    and cc: "concat_calls (trace (snd (process_episode L E folder n out cb w)))
       = [(map (outwav_of td) CONCAT_ORDER, p)]"
    by blast
  show ?thesis
    apply (rule exI [of _ td])
    apply (rule exI [of _ "map (outwav_of td) CONCAT_ORDER"])
    apply (simp add: td nc cc)
    apply (simp add: CONCAT_ORDER_def episode_files_def)
    done
qed

theorem assembly_order_of_eight_witness:
  "trace (sample_world six_clips) = []
   \<and> fst (process_episode sample_lib (sample_env True 0 two_blocks 0) ''/ep'' 7 ''/out'' True
            (sample_world six_clips)) = Inr ''/out/Kapitel 7.mp3''
   \<and> tempdirs (trace (snd (process_episode sample_lib (sample_env True 0 two_blocks 0)
          ''/ep'' 7 ''/out'' True (sample_world six_clips)))) = [''/tmp/podcast_k3x9'']
   \<and> concat_calls (trace (snd (process_episode sample_lib (sample_env True 0 two_blocks 0)
          ''/ep'' 7 ''/out'' True (sample_world six_clips))))
       = [([''/tmp/podcast_k3x9/jingle_vorne_norm.wav'', ''/tmp/podcast_k3x9/intro_norm.wav'',
            ''/tmp/podcast_k3x9/jingle_hinten_norm.wav'', ''/tmp/podcast_k3x9/vorab_norm.wav'',
            ''/tmp/podcast_k3x9/kapitel_norm.wav'', ''/tmp/podcast_k3x9/jingle_vorne_norm.wav'',
            ''/tmp/podcast_k3x9/outro_norm.wav'', ''/tmp/podcast_k3x9/jingle_hinten_norm.wav''],
           ''/out/Kapitel 7.mp3'')]"
proof -
  let ?E = "sample_env True 0 two_blocks 0"
  let ?run = "process_episode sample_lib ?E ''/ep'' 7 ''/out'' True (sample_world six_clips)"
  have h1: "trace (sample_world six_clips) = []"
    by (simp add: sample_world_def)
  have h2: "fst ?run = Inr ''/out/Kapitel 7.mp3''"
    by (simp add: sample_run_result [OF six_clips_ok])
  have tds: "tempdirs (trace (snd ?run)) = [''/tmp/podcast_k3x9'']"
    by (simp add: sample_run_trace [OF six_clips_ok])
  from assembly_order_of_eight [OF h1 h2] obtain td files where
    f1: "tempdirs (trace (snd ?run)) = [td]"
    and f2: "concat_calls (trace (snd ?run)) = [(files, ''/out/Kapitel 7.mp3'')]"
    and f3: "files = [outwav_of td ''jingle_vorne'', outwav_of td ''intro'',
                      outwav_of td ''jingle_hinten'', outwav_of td ''vorab'',
                      outwav_of td ''kapitel'', outwav_of td ''jingle_vorne'',
                      outwav_of td ''outro'', outwav_of td ''jingle_hinten'']"
    by (elim exE conjE) (rule that)
  from f1 tds have td: "td = ''/tmp/podcast_k3x9''" by simp
  from f3 have "files =
          [''/tmp/podcast_k3x9/jingle_vorne_norm.wav'', ''/tmp/podcast_k3x9/intro_norm.wav'',
            ''/tmp/podcast_k3x9/jingle_hinten_norm.wav'', ''/tmp/podcast_k3x9/vorab_norm.wav'',
            ''/tmp/podcast_k3x9/kapitel_norm.wav'', ''/tmp/podcast_k3x9/jingle_vorne_norm.wav'',
            ''/tmp/podcast_k3x9/outro_norm.wav'', ''/tmp/podcast_k3x9/jingle_hinten_norm.wav'']"
    by (simp add: td outwav_of_def path_join_def)
  with h1 h2 tds f2 show ?thesis by simp
qed

subsection \<open>C3: the last block of the diagnostic stream\<close>



subsection \<open>C4: no normalisation after a failed baseline\<close>



subsection \<open>C5: every missing file is reported\<close>

text \<open>C5, as amended. The source resolves the tool before it looks at the files, so a Clip
  Set with missing files fails with the missing-files error only when the tool was found.
  Then all six paths are checked before the failure is raised: the run ends, with the world
  untouched, in the \<^verbatim>\<open>RuntimeError\<close> whose message holds one line
  \<^verbatim>\<open>  - <role>.mp3\<close> for every role whose path does not exist.\<close>

theorem missing_files_all_listed:
  assumes "which_or_bundled E (ffmpeg_name E) (fs w) = Some ff" and "ff \<noteq> []"
    and "(role, path) \<in> set (episode_files folder)" and "\<not> fs w path"
  shows "process_episode L E folder n out cb w =
           (Inl (RuntimeError (missing_files_msg (missing_files (fs w) (episode_files folder)))), w)
         \<and> (\<forall>(role', path') \<in> set (episode_files folder).
               \<not> fs w path' \<longrightarrow>
               sublist (''  - '' @ role' @ ''.mp3'')
                 (missing_files_msg (missing_files (fs w) (episode_files folder))))"
proof
  from assms(3,4) have "missing_files (fs w) (episode_files folder) \<noteq> []"
    by (rule missing_nonempty)
  with assms(1,2) show "process_episode L E folder n out cb w =
      (Inl (RuntimeError (missing_files_msg (missing_files (fs w) (episode_files folder)))), w)"
    by (rule missing_fails)
next
  show "\<forall>(role', path') \<in> set (episode_files folder).
          \<not> fs w path' \<longrightarrow>
          sublist (''  - '' @ role' @ ''.mp3'')
            (missing_files_msg (missing_files (fs w) (episode_files folder)))"
    by (clarify, erule missing_listed, assumption)
qed

theorem missing_files_all_listed_witness:
  "which_or_bundled (sample_env True 0 two_blocks 0) (ffmpeg_name (sample_env True 0 two_blocks 0))
     (fs (sample_world four_clips)) = Some ''/usr/bin/ffmpeg''
   \<and> (''outro'', ''/ep/outro.mp3'') \<in> set (episode_files ''/ep'')
   \<and> \<not> fs (sample_world four_clips) ''/ep/outro.mp3''
   \<and> process_episode sample_lib (sample_env True 0 two_blocks 0) ''/ep'' 7 ''/out'' True
        (sample_world four_clips)
       = (Inl (RuntimeError (''Fehlende Dateien:'' @ nl @ ''  - outro.mp3'' @ nl
                              @ ''  - jingle_hinten.mp3'')), sample_world four_clips)
   \<and> sublist ''  - outro.mp3''
        (''Fehlende Dateien:'' @ nl @ ''  - outro.mp3'' @ nl @ ''  - jingle_hinten.mp3'')
   \<and> sublist ''  - jingle_hinten.mp3''
        (''Fehlende Dateien:'' @ nl @ ''  - outro.mp3'' @ nl @ ''  - jingle_hinten.mp3'')"
proof -
  have h1: "which_or_bundled (sample_env True 0 two_blocks 0)
              (ffmpeg_name (sample_env True 0 two_blocks 0)) (fs (sample_world four_clips))
            = Some ''/usr/bin/ffmpeg''"
    by (simp add: sample_tool four_clips_def)
  have h2: "''/usr/bin/ffmpeg'' \<noteq> []" by simp
  have h3: "(''outro'', ''/ep/outro.mp3'') \<in> set (episode_files ''/ep'')"
    by (simp add: episode_files_def path_join_def)
  have h4: "\<not> fs (sample_world four_clips) ''/ep/outro.mp3''"
    by (simp add: sample_world_def four_clips_def)
  have msg: "missing_files_msg [''outro.mp3'', ''jingle_hinten.mp3'']
               = ''Fehlende Dateien:'' @ nl @ ''  - outro.mp3'' @ nl @ ''  - jingle_hinten.mp3''"
    by (simp add: missing_files_msg_def)
  have h5: "(''jingle_hinten'', ''/ep/jingle_hinten.mp3'') \<in> set (episode_files ''/ep'')"
    by (simp add: episode_files_def path_join_def)
  have h6: "\<not> fs (sample_world four_clips) ''/ep/jingle_hinten.mp3''"
    by (simp add: sample_world_def four_clips_def)
  note inst = missing_files_all_listed [OF h1 h2 h3 h4, of sample_lib 7 "''/out''" True,
    unfolded sample_missing_four]
  have run: "process_episode sample_lib (sample_env True 0 two_blocks 0) ''/ep'' 7 ''/out'' True
          (sample_world four_clips)
         = (Inl (RuntimeError (missing_files_msg [''outro.mp3'', ''jingle_hinten.mp3''])),
            sample_world four_clips)"
    and all: "\<forall>(role', path') \<in> set (episode_files ''/ep'').
               \<not> fs (sample_world four_clips) path' \<longrightarrow>
               sublist (''  - '' @ role' @ ''.mp3'')
                 (missing_files_msg [''outro.mp3'', ''jingle_hinten.mp3''])"
    using inst by blast+
  from all h3 h4 have s1: "sublist (''  - '' @ ''outro'' @ ''.mp3'')
                 (missing_files_msg [''outro.mp3'', ''jingle_hinten.mp3''])"
    by blast
  from all h5 h6 have s2: "sublist (''  - '' @ ''jingle_hinten'' @ ''.mp3'')
                 (missing_files_msg [''outro.mp3'', ''jingle_hinten.mp3''])"
    by blast
  from h1 h3 h4 run s1 s2 show ?thesis
    by (simp only: msg append.simps) simp
qed

text \<open>C5 as stated fails: with no tool to be found, a Clip Set without \<^verbatim>\<open>outro\<close>
  and \<^verbatim>\<open>jingle_hinten\<close> fails with the tool-not-found error, whose message names neither
  role.\<close>

theorem missing_files_not_reported_counterexample:
  "\<not> fs (sample_world four_clips) ''/ep/outro.mp3''
   \<and> \<not> fs (sample_world four_clips) ''/ep/jingle_hinten.mp3''
   \<and> process_episode sample_lib (sample_env False 0 two_blocks 0) ''/ep'' 7 ''/out'' True
        (sample_world four_clips)
       = (Inl (RuntimeError tool_not_found_msg), sample_world four_clips)
   \<and> \<not> sublist ''outro'' tool_not_found_msg
   \<and> \<not> sublist ''jingle_hinten'' tool_not_found_msg"
proof -
  have "which_or_bundled (sample_env False 0 two_blocks 0)
          (ffmpeg_name (sample_env False 0 two_blocks 0)) (fs (sample_world four_clips)) = None"
    by (simp add: sample_no_tool four_clips_def)
  then have "process_episode sample_lib (sample_env False 0 two_blocks 0) ''/ep'' 7 ''/out'' True
        (sample_world four_clips)
       = (Inl (RuntimeError tool_not_found_msg), sample_world four_clips)"
    by (simp add: no_tool_fails)
  moreover have "\<not> sublist ''outro'' tool_not_found_msg"
    and "\<not> sublist ''jingle_hinten'' tool_not_found_msg"
    by (simp_all add: tool_not_found_msg_def nl_def sublist_code)
  moreover have "\<not> fs (sample_world four_clips) ''/ep/outro.mp3''"
    and "\<not> fs (sample_world four_clips) ''/ep/jingle_hinten.mp3''"
    by (simp_all add: sample_world_def four_clips_def)
  ultimately show ?thesis by simp
qed

subsection \<open>C6: the workspace is gone on every exit path\<close>

text \<open>C6. In every run that created its temporary workspace \<open>td\<close>, whatever the outcome
  (success, or an error raised during normalisation or concatenation), no path within
  \<open>td\<close> exists when the call returns: the directory itself and every file a normalize call
  wrote, each of which lies within \<open>td\<close>. On success the value returned is the expected
  output path, the one concatenate call of the run wrote to it, and the file exists there,
  given that a concatenation exiting with status 0 has written its output and that the
  output path does not lie in the workspace.\<close>

theorem workspace_removed_on_every_exit:
  assumes "trace w = []"
    and "td \<in> set (tempdirs (trace (snd (process_episode L E folder n out cb w))))"
  shows "(\<forall>p. within td p \<longrightarrow> \<not> fs (snd (process_episode L E folder n out cb w)) p)
       \<and> (\<forall>(infile, outfile, target_i)
             \<in> set (normalize_calls (trace (snd (process_episode L E folder n out cb w)))).
             within td outfile \<and> \<not> fs (snd (process_episode L E folder n out cb w)) outfile)
       \<and> (\<forall>p. fst (process_episode L E folder n out cb w) = Inr p \<longrightarrow>
             p = output_path_of out n
             \<and> concat_calls (trace (snd (process_episode L E folder n out cb w)))
                 = [(map (outwav_of td) CONCAT_ORDER, p)]
             \<and> (concat_writes_output E \<and> \<not> within td p \<longrightarrow>
                  fs (snd (process_episode L E folder n out cb w)) p))"
proof -
  let ?r = "fst (process_episode L E folder n out cb w)"
  let ?w' = "snd (process_episode L E folder n out cb w)"
  have run: "process_episode L E folder n out cb w = (?r, ?w')" by simp
  note facts = workspace_facts [OF assms(1) run assms(2)]
  have part1: "\<forall>p. within td p \<longrightarrow> \<not> fs ?w' p"
    by (rule facts(2))
  have part2: "\<forall>(infile, outfile, target_i) \<in> set (normalize_calls (trace ?w')).
                 within td outfile \<and> \<not> fs ?w' outfile"
  proof (clarify)
    fix infile outfile target_i
    assume "(infile, outfile, target_i) \<in> set (normalize_calls (trace ?w'))"
    with facts(3) obtain role path b where "(role, path) \<in> set (episode_files folder)"
      and "(infile, outfile, target_i) = (path, outwav_of td role, b)"
      by blast
    then have "within td outfile"
      by (auto intro: within_outwav_roles)
    with part1 show "within td outfile \<and> \<not> fs ?w' outfile" by simp
  qed
  have part3: "\<forall>p. ?r = Inr p \<longrightarrow>
             p = output_path_of out n
             \<and> concat_calls (trace ?w') = [(map (outwav_of td) CONCAT_ORDER, p)]
             \<and> (concat_writes_output E \<and> \<not> within td p \<longrightarrow> fs ?w' p)"
  proof (intro allI impI)
    fix p assume "?r = Inr p"
    with run have runp: "process_episode L E folder n out cb w = (Inr p, ?w')" by simp
    from success_calls [OF assms(1) runp] facts(1) have
      "p = output_path_of out n"
      "concat_calls (trace ?w') = [(map (outwav_of td) CONCAT_ORDER, p)]"
      by auto
    moreover have "concat_writes_output E \<and> \<not> within td p \<longrightarrow> fs ?w' p"
      using run_output_written [OF runp] facts(1) by auto
    ultimately show "p = output_path_of out n
             \<and> concat_calls (trace ?w') = [(map (outwav_of td) CONCAT_ORDER, p)]
             \<and> (concat_writes_output E \<and> \<not> within td p \<longrightarrow> fs ?w' p)"
      by blast
  qed
  from part1 part2 part3 show ?thesis by blast
qed

theorem workspace_removed_on_every_exit_witness:
  "trace (sample_world six_clips) = []
   \<and> ''/tmp/podcast_k3x9''
        \<in> set (tempdirs (trace (snd (process_episode sample_lib (sample_env True 0 two_blocks 0)
                 ''/ep'' 7 ''/out'' True (sample_world six_clips)))))
   \<and> fst (process_episode sample_lib (sample_env True 0 two_blocks 0) ''/ep'' 7 ''/out'' True
            (sample_world six_clips)) = Inr ''/out/Kapitel 7.mp3''
   \<and> concat_writes_output (sample_env True 0 two_blocks 0)
   \<and> \<not> within ''/tmp/podcast_k3x9'' ''/out/Kapitel 7.mp3''
   \<and> \<not> fs (snd (process_episode sample_lib (sample_env True 0 two_blocks 0) ''/ep'' 7 ''/out''
              True (sample_world six_clips))) ''/tmp/podcast_k3x9''
   \<and> \<not> fs (snd (process_episode sample_lib (sample_env True 0 two_blocks 0) ''/ep'' 7 ''/out''
              True (sample_world six_clips))) ''/tmp/podcast_k3x9/intro_norm.wav''
   \<and> fs (snd (process_episode sample_lib (sample_env True 0 two_blocks 0) ''/ep'' 7 ''/out''
              True (sample_world six_clips))) ''/out/Kapitel 7.mp3''"
proof -
  let ?E = "sample_env True 0 two_blocks 0"
  let ?run = "process_episode sample_lib ?E ''/ep'' 7 ''/out'' True (sample_world six_clips)"
  have h1: "trace (sample_world six_clips) = []"
    by (simp add: sample_world_def)
  have h2: "''/tmp/podcast_k3x9'' \<in> set (tempdirs (trace (snd ?run)))"
    by (simp add: sample_run_trace [OF six_clips_ok])
  have ok: "fst ?run = Inr ''/out/Kapitel 7.mp3''"
    by (simp add: sample_run_result [OF six_clips_ok])
  note inst = workspace_removed_on_every_exit [OF h1 h2]
  from inst have gone: "\<forall>p. within ''/tmp/podcast_k3x9'' p \<longrightarrow> \<not> fs (snd ?run) p"
    by (rule conjunct1)
  from inst have "\<forall>p. fst ?run = Inr p \<longrightarrow>
             p = output_path_of ''/out'' 7
             \<and> concat_calls (trace (snd ?run))
                 = [(map (outwav_of ''/tmp/podcast_k3x9'') CONCAT_ORDER, p)]
             \<and> (concat_writes_output ?E \<and> \<not> within ''/tmp/podcast_k3x9'' p \<longrightarrow>
                  fs (snd ?run) p)"
    by (rule conjunct2 [THEN conjunct2])
  with ok sample_writes sample_outside have out: "fs (snd ?run) ''/out/Kapitel 7.mp3''"
    by blast
  from gone sample_inside have "\<not> fs (snd ?run) ''/tmp/podcast_k3x9''"
    and "\<not> fs (snd ?run) ''/tmp/podcast_k3x9/intro_norm.wav''"
    by blast+
  with h1 h2 ok out sample_writes sample_outside show ?thesis by blast
qed

subsection \<open>C7: a failed concatenation\<close>




subsection \<open>C8: the order of the first two steps\<close>

text \<open>C8, as amended. The external tool is resolved first and the Clip Set is validated
  second: a run whose tool cannot be resolved fails with the tool-not-found error whatever
  the Clip Set holds, and a run fails with the missing-files error when the tool was resolved
  and a file is missing.\<close>

theorem tool_located_before_validation:
  "(which_or_bundled E (ffmpeg_name E) (fs w) = None \<longrightarrow>
      process_episode L E folder n out cb w = (Inl (RuntimeError tool_not_found_msg), w))
   \<and> (\<forall>ff. which_or_bundled E (ffmpeg_name E) (fs w) = Some ff \<and> ff \<noteq> []
              \<and> missing_files (fs w) (episode_files folder) \<noteq> [] \<longrightarrow>
         process_episode L E folder n out cb w =
           (Inl (RuntimeError (missing_files_msg (missing_files (fs w) (episode_files folder)))),
            w))"
  by (auto simp: no_tool_fails missing_fails)

theorem tool_located_before_validation_witness:
  "which_or_bundled (sample_env False 0 two_blocks 0) (ffmpeg_name (sample_env False 0 two_blocks 0))
      (fs (sample_world four_clips)) = None
   \<and> process_episode sample_lib (sample_env False 0 two_blocks 0) ''/ep'' 7 ''/out'' True
        (sample_world four_clips)
       = (Inl (RuntimeError tool_not_found_msg), sample_world four_clips)
   \<and> which_or_bundled (sample_env True 0 two_blocks 0) (ffmpeg_name (sample_env True 0 two_blocks 0))
        (fs (sample_world four_clips)) = Some ''/usr/bin/ffmpeg''
   \<and> missing_files (fs (sample_world four_clips)) (episode_files ''/ep'') \<noteq> []
   \<and> process_episode sample_lib (sample_env True 0 two_blocks 0) ''/ep'' 7 ''/out'' True
        (sample_world four_clips)
       = (Inl (RuntimeError (missing_files_msg [''outro.mp3'', ''jingle_hinten.mp3''])),
          sample_world four_clips)"
proof -
  have h1: "which_or_bundled (sample_env False 0 two_blocks 0)
              (ffmpeg_name (sample_env False 0 two_blocks 0)) (fs (sample_world four_clips))
            = None"
    by (simp add: sample_no_tool four_clips_def)
  have h2: "which_or_bundled (sample_env True 0 two_blocks 0)
              (ffmpeg_name (sample_env True 0 two_blocks 0)) (fs (sample_world four_clips))
            = Some ''/usr/bin/ffmpeg''"
    by (simp add: sample_tool four_clips_def)
  have h3: "missing_files (fs (sample_world four_clips)) (episode_files ''/ep'') \<noteq> []"
    by (simp add: sample_missing_four)
  from tool_located_before_validation
         [of "sample_env False 0 two_blocks 0" "sample_world four_clips" sample_lib "''/ep''" 7
             "''/out''" True] h1
  have r1: "process_episode sample_lib (sample_env False 0 two_blocks 0) ''/ep'' 7 ''/out'' True
              (sample_world four_clips)
            = (Inl (RuntimeError tool_not_found_msg), sample_world four_clips)"
    by blast
  from tool_located_before_validation
         [of "sample_env True 0 two_blocks 0" "sample_world four_clips" sample_lib "''/ep''" 7
             "''/out''" True] h2 h3
  have r2: "process_episode sample_lib (sample_env True 0 two_blocks 0) ''/ep'' 7 ''/out'' True
              (sample_world four_clips)
            = (Inl (RuntimeError (missing_files_msg
                  (missing_files (fs (sample_world four_clips)) (episode_files ''/ep'')))),
               sample_world four_clips)"
    by blast
  from h1 h2 h3 r1 r2 show ?thesis
    by (simp only: sample_missing_four) simp
qed

text \<open>C8 as stated fails: with all six files missing and no tool to be found, the failure
  is the tool-not-found error, not the missing-files error.\<close>

theorem validation_not_first_counterexample:
  "missing_files (fs (sample_world [])) (episode_files ''/ep'')
     = [''intro.mp3'', ''vorab.mp3'', ''kapitel.mp3'', ''outro.mp3'', ''jingle_vorne.mp3'',
        ''jingle_hinten.mp3'']
   \<and> which_or_bundled (sample_env False 0 two_blocks 0) (ffmpeg_name (sample_env False 0 two_blocks 0))
        (fs (sample_world [])) = None
   \<and> process_episode sample_lib (sample_env False 0 two_blocks 0) ''/ep'' 7 ''/out'' True
        (sample_world [])
       = (Inl (RuntimeError tool_not_found_msg), sample_world [])
   \<and> \<not> prefix ''Fehlende Dateien:'' tool_not_found_msg"
proof -
  have none: "which_or_bundled (sample_env False 0 two_blocks 0)
          (ffmpeg_name (sample_env False 0 two_blocks 0)) (fs (sample_world [])) = None"
    by (simp add: sample_no_tool)
  then have "process_episode sample_lib (sample_env False 0 two_blocks 0) ''/ep'' 7 ''/out'' True
        (sample_world [])
       = (Inl (RuntimeError tool_not_found_msg), sample_world [])"
    by (simp add: no_tool_fails)
  moreover have "\<not> prefix ''Fehlende Dateien:'' tool_not_found_msg"
    by (simp add: tool_not_found_msg_def)
  ultimately show ?thesis
    using none by (simp add: sample_missing_none)
qed

subsection \<open>C9: the kind of a failure\<close>




subsection \<open>C10: the loudness filter argument\<close>



end
